theory Spec2Isabelle
  imports Complex_Main "HOL-Library.Multiset"
begin

section \<open>Match-scoring engine of TRIDENT-BACKEND\<close>

text \<open>
  A shallow embedding of \<^verbatim>\<open>backend/src/services/matchingService.js\<close> and of the
  \<^verbatim>\<open>explainMatch\<close> handler of \<^verbatim>\<open>backend/src/controllers/matchController.js\<close>.

  Conventions of the embedding.
  \<^item> JavaScript numbers are exact rationals (\<^typ>\<open>rat\<close>); the rounding error of IEEE
    doubles, \<^verbatim>\<open>NaN\<close> and the infinities are not modelled. A score \<open>k / 10\<close> stands
    for the double nearest to it. Where the source rounds a product with
    \<^verbatim>\<open>Math.round\<close>, the double product can fall on the other side of a tie than the
    exact one: for a budget of 10000 to 20000, 100 hours and a rate of 191 to 291 the
    source computes \<^verbatim>\<open>0.09 * 15 * 10 = 13.499999999999998\<close> and returns 1.3, where
    exact arithmetic gives 13.5 and 1.4. The properties below about a sub-score that is
    computed through such a product are therefore stated as bounds, or as the nearest
    tenth with a margin, which hold of either value.
  \<^item> A numeric field of a record is modelled by what \<^verbatim>\<open>parseFloat\<close> or
    \<^verbatim>\<open>parseInt\<close> reads from it: \<open>None\<close> when it reads \<^verbatim>\<open>NaN\<close> (the field is
    absent, null or not numeric), \<open>Some v\<close> otherwise.
  \<^item> A text field is a \<^typ>\<open>string option\<close>: \<open>None\<close> when the field is absent, null
    or not a string. Characters are bytes; trimming and lower-casing cover ASCII.
  \<^item> The persistence layer is an explicit value of type \<open>database\<close>: each table is the
    list of its rows in fetch order.
\<close>

subsection \<open>JavaScript primitives\<close>

text \<open>\<^verbatim>\<open>Math.round\<close>: the nearest integer, a tie going up.\<close>

definition Math_round :: "rat \<Rightarrow> rat" where
  "Math_round x = of_int \<lfloor>x + 1 / 2\<rfloor>"

text \<open>\<^verbatim>\<open>parseFloat(v) || d\<close> and \<^verbatim>\<open>parseInt(v) || d\<close>: the default replaces
  \<^verbatim>\<open>NaN\<close> and also zero, both being falsy.\<close>

definition num_or :: "'a::zero option \<Rightarrow> 'a \<Rightarrow> 'a" where
  "num_or v d = (case v of None \<Rightarrow> d | Some x \<Rightarrow> if x = 0 then d else x)"

text \<open>\<^verbatim>\<open>String.prototype.split(',')\<close>: the pieces between commas; the empty string
  gives one empty piece.\<close>

fun split_comma :: "string \<Rightarrow> string list" where
  "split_comma [] = ['''']"
| "split_comma (c # cs) =
     (if c = CHR '','' then '''' # split_comma cs
      else (case split_comma cs of
              [] \<Rightarrow> [c # '''']
            | p # ps \<Rightarrow> (c # p) # ps))"

definition is_space :: "char \<Rightarrow> bool" where
  "is_space c = (c \<in> set [CHR '' '', CHR 0x09, CHR 0x0A, CHR 0x0B, CHR 0x0C, CHR 0x0D])"

definition trim :: "string \<Rightarrow> string" where
  "trim s = rev (dropWhile is_space (rev (dropWhile is_space s)))"

definition toLowerCase_char :: "char \<Rightarrow> char" where
  "toLowerCase_char c =
     (let n = (of_char c :: nat)
      in if 65 \<le> n \<and> n \<le> 90 then char_of (n + 32) else c)"

definition toLowerCase :: "string \<Rightarrow> string" where
  "toLowerCase s = map toLowerCase_char s"

text \<open>\<^verbatim>\<open>new Set(array)\<close>: the distinct elements, each at its first occurrence.\<close>

definition new_Set :: "'a list \<Rightarrow> 'a list" where
  "new_Set xs = rev (remdups (rev xs))"

subsection \<open>Text-set utilities\<close>

definition parseCommaSeparated :: "string option \<Rightarrow> string list" where
  "parseCommaSeparated str =
     (case str of
        None \<Rightarrow> []
      | Some s \<Rightarrow>
          if s = [] then []
          else filter (\<lambda>item. length item > 0)
                 (map (\<lambda>item. toLowerCase (trim item)) (split_comma s)))"

definition calculateJaccardSimilarity :: "'a list \<Rightarrow> 'a list \<Rightarrow> rat" where
  "calculateJaccardSimilarity set1 set2 =
     (let s1 = new_Set set1; s2 = new_Set set2
      in if length s1 = 0 \<and> length s2 = 0 then 0
         else if length s1 = 0 \<or> length s2 = 0 then 0
         else
           (let intersection = new_Set (filter (\<lambda>x. x \<in> set s2) s1);
                union = new_Set (s1 @ s2)
            in of_nat (length intersection) / of_nat (length union)))"

text \<open>A range \<^verbatim>\<open>{min, max}\<close>; a bound is \<open>None\<close> when it is missing.\<close>

record range =
  rmin :: "rat option"
  rmax :: "rat option"

text \<open>\<^verbatim>\<open>!v\<close> on a bound: true when the bound is missing or zero.\<close>

definition falsy :: "rat option \<Rightarrow> bool" where
  "falsy v = (case v of None \<Rightarrow> True | Some x \<Rightarrow> x = 0)"

definition checkRangeOverlap :: "range \<Rightarrow> range \<Rightarrow> rat" where
  "checkRangeOverlap range1 range2 =
     (if falsy (rmin range1) \<or> falsy (rmax range1) \<or> falsy (rmin range2) \<or> falsy (rmax range2)
      then 0
      else
        (let overlapMin = max (the (rmin range1)) (the (rmin range2));
             overlapMax = min (the (rmax range1)) (the (rmax range2))
         in if overlapMin \<ge> overlapMax then 0
            else
              (let overlapSize = overlapMax - overlapMin;
                   range1Size = the (rmax range1) - the (rmin range1);
                   range2Size = the (rmax range2) - the (rmin range2);
                   avgRangeSize = (range1Size + range2Size) / 2
               in min (overlapSize / avgRangeSize) 1)))"

subsection \<open>Records of the data layer\<close>

record organization =
  oid :: nat
  org_name :: "string option"
  focus_areas :: "string option"

text \<open>A date field: absent (null, undefined or empty), present but not a date
  (\<^verbatim>\<open>new Date\<close> gives an invalid date), or a point in time in milliseconds.\<close>

datatype datefield = NoDate | InvalidDate | DateAt int

text \<open>A project as the scorers read it. The field \<open>organization\<close> is not a column:
  the callers fill it before scoring.\<close>

record project =
  project_id :: nat
  title :: "string option"
  problem :: "string option"
  outcomes :: "string option"
  timeline :: "string option"
  status :: "string option"
  methods_required :: "string option"
  budget_min :: "rat option"
  budget_max :: "rat option"
  estimated_hours :: "int option"
  start_date :: datefield
  org_id :: "nat option"
  organization :: "organization option"

record researcher =
  user_id :: "nat option"
  r_title :: "string option"
  affiliation :: "string option"
  institution :: "string option"
  expertise :: "string option"
  methods :: "string option"
  domains :: "string option"
  tools :: "string option"
  research_interests :: "string option"
  compliance_certifications :: "string option"
  availability :: "string option"
  rate_min :: "rat option"
  rate_max :: "rat option"
  hourly_rate_min :: "rat option"
  hourly_rate_max :: "rat option"
  current_projects_count :: "int option"
  max_concurrent_projects :: "int option"
  available_start_date :: datefield
  projects_completed :: "int option"

record user =
  uid :: nat
  name :: "string option"
  email :: "string option"
  account_status :: "string option"
  deleted_at :: "int option"

record database =
  projects :: "project list"
  organizations :: "organization list"
  researcher_profiles :: "researcher list"
  users :: "user list"

subsection \<open>Factor scorers\<close>

definition calculateExpertiseScore :: "string option \<Rightarrow> string option \<Rightarrow> rat" where
  "calculateExpertiseScore projectExpertise researcherExpertise =
     (let projectTags = parseCommaSeparated projectExpertise;
          researcherTags = parseCommaSeparated researcherExpertise
      in if length projectTags = 0 \<or> length researcherTags = 0 then 0
         else
           (let similarity = calculateJaccardSimilarity projectTags researcherTags
            in Math_round (similarity * 30 * 10) / 10))"

definition calculateMethodsScore :: "string option \<Rightarrow> string option \<Rightarrow> rat" where
  "calculateMethodsScore requiredMethods researcherMethods =
     (let required = parseCommaSeparated requiredMethods;
          available = parseCommaSeparated researcherMethods
      in if length required = 0 then 25
         else if length available = 0 then 0
         else
           (let matchedMethods = filter (\<lambda>method. method \<in> set available) required;
                matchPercentage = of_nat (length matchedMethods) / of_nat (length required)
            in Math_round (matchPercentage * 25 * 10) / 10))"

text \<open>The five local constants of \<^verbatim>\<open>calculateBudgetScore\<close>, each under its own name.\<close>

definition projectMin :: "project \<Rightarrow> rat" where
  "projectMin p = num_or (budget_min p) 0"

definition projectMax :: "project \<Rightarrow> rat" where
  "projectMax p = num_or (budget_max p) (num_or (budget_min p) 0)"

definition estimatedHours :: "project \<Rightarrow> rat" where
  "estimatedHours p = of_int (num_or (estimated_hours p) 100)"

definition rateMin :: "researcher \<Rightarrow> rat" where
  "rateMin r = num_or (rate_min r) (num_or (hourly_rate_min r) 0)"

definition rateMax :: "researcher \<Rightarrow> rat" where
  "rateMax r = num_or (rate_max r) (num_or (hourly_rate_max r) 0)"

definition calculateBudgetScore :: "project \<Rightarrow> researcher \<Rightarrow> rat" where
  "calculateBudgetScore p r =
     (if projectMin p = 0 \<or> rateMin r = 0 then 0
      else
        (let researcherCostMin = rateMin r * estimatedHours p;
             researcherCostMax = rateMax r * estimatedHours p;
             overlapPercentage =
               checkRangeOverlap
                 \<lparr>rmin = Some (projectMin p), rmax = Some (projectMax p)\<rparr>
                 \<lparr>rmin = Some researcherCostMin, rmax = Some researcherCostMax\<rparr>
         in Math_round (overlapPercentage * 15 * 10) / 10))"

definition date_truthy :: "datefield \<Rightarrow> bool" where
  "date_truthy d = (d \<noteq> NoDate)"

text \<open>\<^verbatim>\<open>new Date(a) <= new Date(b)\<close>: false when either date is invalid.\<close>

fun date_le :: "datefield \<Rightarrow> datefield \<Rightarrow> bool" where
  "date_le (DateAt a) (DateAt b) = (a \<le> b)"
| "date_le _ _ = False"

definition calculateAvailabilityScore :: "project \<Rightarrow> researcher \<Rightarrow> rat" where
  "calculateAvailabilityScore p r =
     (let currentProjects = num_or (current_projects_count r) 0;
          maxProjects = num_or (max_concurrent_projects r) 3;
          score = (if currentProjects < maxProjects then 5 else 0)
      in if date_truthy (start_date p) \<and> date_truthy (available_start_date r)
         then (if date_le (available_start_date r) (start_date p) then score + 5 else score)
         else if \<not> date_truthy (start_date p) then score + 5
         else score)"

definition calculateExperienceScore :: "int option \<Rightarrow> rat" where
  "calculateExperienceScore projectsCompleted =
     (let count = num_or projectsCompleted 0
      in if count = 0 then 0
         else if count \<le> 2 then 3
         else if count \<le> 5 then 5
         else if count \<le> 10 then 7
         else if count \<le> 20 then 9
         else 10)"

definition calculateDomainScore :: "string option \<Rightarrow> string option \<Rightarrow> rat" where
  "calculateDomainScore orgFocusAreas researcherDomains =
     (let orgDomains = parseCommaSeparated orgFocusAreas;
          resDomains = parseCommaSeparated researcherDomains
      in if length orgDomains = 0 \<or> length resDomains = 0 then 0
         else
           (let similarity = calculateJaccardSimilarity orgDomains resDomains
            in Math_round (similarity * 10 * 10) / 10))"

subsection \<open>Score aggregator\<close>

record breakdown =
  b_expertise :: rat
  b_methods :: rat
  b_budget :: rat
  b_availability :: rat
  b_experience :: rat
  b_domain :: rat

text \<open>\<^verbatim>\<open>Object.values(breakdown)\<close>: the six values in the order the object literal
  lists them.\<close>

definition Object_values :: "breakdown \<Rightarrow> rat list" where
  "Object_values b =
     [b_expertise b, b_methods b, b_budget b, b_availability b, b_experience b, b_domain b]"

text \<open>The strength and concern texts, one constructor per text; a constructor's argument
  is the value the template string interpolates.\<close>

datatype strength =
    StrongExpertiseMatch rat
  | AllRequiredMethodsPresent
  | MostRequiredMethodsPresent
  | RateFitsWithinBudget
  | AvailableAndHasCapacity
  | HighlyExperienced "int option"

datatype concern =
    LimitedExpertiseOverlap
  | MissingSomeRequiredMethods
  | RateMayNotFitBudget
  | MayNotBeAvailableOrAtCapacity
  | DifferentResearchDomainFocus

record match_score =
  totalScore :: rat
  breakdown :: breakdown
  strengths :: "strength list"
  concerns :: "concern list"

text \<open>\<^verbatim>\<open>a || b || ''\<close> on two text fields: the first that is a non-empty string.\<close>

definition text_or :: "string option \<Rightarrow> string option \<Rightarrow> string option" where
  "text_or a b =
     (if a \<noteq> None \<and> a \<noteq> Some [] then a
      else if b \<noteq> None \<and> b \<noteq> Some [] then b
      else Some [])"

definition calculateMatchScore :: "project \<Rightarrow> researcher \<Rightarrow> match_score" where
  "calculateMatchScore p r =
     (let b = \<lparr>b_expertise = calculateExpertiseScore (text_or (problem p) (outcomes p)) (expertise r),
               b_methods = calculateMethodsScore (methods_required p) (methods r),
               b_budget = calculateBudgetScore p r,
               b_availability = calculateAvailabilityScore p r,
               b_experience = calculateExperienceScore (projects_completed r),
               b_domain =
                 calculateDomainScore
                   (case organization p of None \<Rightarrow> None | Some org \<Rightarrow> focus_areas org)
                   (domains r)\<rparr>;
          total = foldl (\<lambda>sum val. sum + val) 0 (Object_values b);
          strengths =
            (if b_expertise b \<ge> 20
             then [StrongExpertiseMatch (Math_round (b_expertise b / 30 * 100))] else []) @
            (if b_methods b = 25 then [AllRequiredMethodsPresent]
             else if b_methods b \<ge> 15 then [MostRequiredMethodsPresent] else []) @
            (if b_budget b \<ge> 12 then [RateFitsWithinBudget] else []) @
            (if b_availability b = 10 then [AvailableAndHasCapacity] else []) @
            (if b_experience b \<ge> 8 then [HighlyExperienced (projects_completed r)] else []);
          concerns =
            (if b_expertise b < 15 then [LimitedExpertiseOverlap] else []) @
            (if b_methods b < 15 then [MissingSomeRequiredMethods] else []) @
            (if b_budget b < 8 then [RateMayNotFitBudget] else []) @
            (if b_availability b < 5 then [MayNotBeAvailableOrAtCapacity] else []) @
            (if b_domain b < 5 then [DifferentResearchDomainFocus] else [])
      in \<lparr>totalScore = Math_round (total * 10) / 10,
          breakdown = b,
          strengths = strengths,
          concerns = concerns\<rparr>)"

subsection \<open>Queries of the data layer\<close>

text \<open>\<^verbatim>\<open>Model.findByPk\<close> and \<^verbatim>\<open>Model.findOne\<close>: the first row that matches.\<close>

definition Project_findByPk :: "database \<Rightarrow> nat \<Rightarrow> project option" where
  "Project_findByPk db pid = find (\<lambda>p. project_id p = pid) (projects db)"

definition Organization_findByPk :: "database \<Rightarrow> nat \<Rightarrow> organization option" where
  "Organization_findByPk db i = find (\<lambda>org. oid org = i) (organizations db)"

definition ResearcherProfile_findOne :: "database \<Rightarrow> nat \<Rightarrow> researcher option" where
  "ResearcherProfile_findOne db rid = find (\<lambda>r. user_id r = Some rid) (researcher_profiles db)"

subsection \<open>The finders\<close>

datatype error = Error string

text \<open>The options after the callers' clamping: \<open>limit\<close> and \<open>offset\<close> are
  non-negative integers (the controller passes \<^verbatim>\<open>validLimit\<close> in 1..100 and
  \<^verbatim>\<open>validOffset\<close> at least 0), so that \<^verbatim>\<open>slice(offset, offset + limit)\<close> is
  \<open>take limit (drop offset xs)\<close>.\<close>

record options =
  limit :: nat
  offset :: nat
  minScore :: rat

record pagination =
  total :: nat
  p_limit :: nat
  p_offset :: nat
  hasMore :: bool

text \<open>One scored candidate. The candidate summary keeps the fields the source copies,
  except \<^verbatim>\<open>rate_min\<close> and \<^verbatim>\<open>rate_max\<close> of a researcher summary: they are
  \<^verbatim>\<open>hourly_rate_* || rate_*\<close> on the raw field values, which the model does not carry.\<close>

record 'c match =
  candidate :: 'c
  matchScore :: rat
  scoreBreakdown :: breakdown
  m_strengths :: "strength list"
  m_concerns :: "concern list"
  hasApplied :: bool
  isBookmarked :: bool

record 'c finder_result =
  matches :: "'c match list"
  pagination :: pagination

record researcher_summary =
  rs_user_id :: "nat option"
  rs_name :: "string option"
  rs_title :: "string option"
  rs_affiliation :: "string option"
  rs_institution :: "string option"
  rs_expertise :: "string list"
  rs_methods :: "string list"
  rs_domains :: "string list"
  rs_tools :: "string list"
  rs_research_interests :: "string option"
  rs_compliance_certifications :: "string option"
  rs_availability :: "string option"
  rs_projects_completed :: "int option"

record project_summary =
  ps_project_id :: nat
  ps_title :: "string option"
  ps_problem :: "string option"
  ps_outcomes :: "string option"
  ps_timeline :: "string option"
  ps_budget_min :: "rat option"
  ps_budget_max :: "rat option"
  ps_methods_required :: "string list"
  ps_organization :: "(nat \<times> string option) option"

text \<open>The tail both finders share: filter by minimum score, sort descending by score
  (\<^verbatim>\<open>Array.prototype.sort\<close> is stable; \<open>sort_key\<close> is the stable insertion sort),
  slice, and count.\<close>

definition filteredMatches :: "rat \<Rightarrow> 'c match list \<Rightarrow> 'c match list" where
  "filteredMatches minS ms =
     sort_key (\<lambda>m. - matchScore m) (filter (\<lambda>m. matchScore m \<ge> minS) ms)"

definition paginate :: "options \<Rightarrow> 'c match list \<Rightarrow> 'c finder_result" where
  "paginate opts ms =
     (let filtered = filteredMatches (minScore opts) ms;
          paginatedMatches = take (limit opts) (drop (offset opts) filtered)
      in \<lparr>matches = paginatedMatches,
          pagination = \<lparr>total = length filtered,
                        p_limit = limit opts,
                        p_offset = offset opts,
                        hasMore = (offset opts + limit opts < length filtered)\<rparr>\<rparr>)"

definition researcherMatch :: "project \<Rightarrow> user \<Rightarrow> researcher \<Rightarrow> researcher_summary match" where
  "researcherMatch projectData u r =
     (let scoreData = calculateMatchScore projectData r
      in \<lparr>candidate =
            \<lparr>rs_user_id = user_id r,
             rs_name = name u,
             rs_title = r_title r,
             rs_affiliation = affiliation r,
             rs_institution = institution r,
             rs_expertise = parseCommaSeparated (expertise r),
             rs_methods = parseCommaSeparated (methods r),
             rs_domains = parseCommaSeparated (domains r),
             rs_tools = parseCommaSeparated (tools r),
             rs_research_interests = research_interests r,
             rs_compliance_certifications = compliance_certifications r,
             rs_availability = availability r,
             rs_projects_completed = projects_completed r\<rparr>,
          matchScore = totalScore scoreData,
          scoreBreakdown = breakdown scoreData,
          m_strengths = strengths scoreData,
          m_concerns = concerns scoreData,
          hasApplied = False,
          isBookmarked = False\<rparr>)"

text \<open>The scored candidate pool of the project-side finder, before filtering.\<close>

definition projectCandidates :: "database \<Rightarrow> project \<Rightarrow> researcher_summary match list" where
  "projectCandidates db p =
     (let organization =
            (case org_id p of
               None \<Rightarrow> None
             | Some i \<Rightarrow> if i = 0 then None else Organization_findByPk db i);
          researchers = filter (\<lambda>r. user_id r \<noteq> None) (researcher_profiles db);
          userIds = filter (\<lambda>i. i \<noteq> 0) (map (\<lambda>r. the (user_id r)) researchers);
          activeUsers =
            filter (\<lambda>u. uid u \<in> set userIds \<and> account_status u = Some ''active''
                        \<and> deleted_at u = None) (users db);
          userMap = fold (\<lambda>u m. m(uid u \<mapsto> u)) activeUsers Map.empty;
          projectData = p\<lparr>organization := organization\<rparr>
      in map (\<lambda>r. researcherMatch projectData (the (userMap (the (user_id r)))) r)
           (filter (\<lambda>r. userMap (the (user_id r)) \<noteq> None) researchers))"

definition findMatchesForProject ::
  "database \<Rightarrow> nat \<Rightarrow> options \<Rightarrow> error + researcher_summary finder_result" where
  "findMatchesForProject db projectId opts =
     (case Project_findByPk db projectId of
        None \<Rightarrow> Inl (Error ''Project not found'')
      | Some p \<Rightarrow> Inr (paginate opts (projectCandidates db p)))"

definition projectMatch :: "project \<Rightarrow> researcher \<Rightarrow> project_summary match" where
  "projectMatch projectData r =
     (let scoreData = calculateMatchScore projectData r
      in \<lparr>candidate =
            \<lparr>ps_project_id = project_id projectData,
             ps_title = title projectData,
             ps_problem = problem projectData,
             ps_outcomes = outcomes projectData,
             ps_timeline = timeline projectData,
             ps_budget_min = budget_min projectData,
             ps_budget_max = budget_max projectData,
             ps_methods_required = parseCommaSeparated (methods_required projectData),
             ps_organization =
               (case organization projectData of
                  None \<Rightarrow> None
                | Some org \<Rightarrow> Some (oid org, org_name org))\<rparr>,
          matchScore = totalScore scoreData,
          scoreBreakdown = breakdown scoreData,
          m_strengths = strengths scoreData,
          m_concerns = concerns scoreData,
          hasApplied = False,
          isBookmarked = False\<rparr>)"

text \<open>The scored candidate pool of the researcher-side finder, before filtering.\<close>

definition researcherCandidates :: "database \<Rightarrow> researcher \<Rightarrow> project_summary match list" where
  "researcherCandidates db r =
     (let openProjects = filter (\<lambda>p. status p = Some ''open'') (projects db);
          orgIds = filter (\<lambda>i. i \<noteq> 0) (concat (map (\<lambda>p. case org_id p of None \<Rightarrow> [] | Some i \<Rightarrow> [i]) openProjects));
          orgs = filter (\<lambda>org. oid org \<in> set orgIds) (organizations db);
          orgMap = fold (\<lambda>org m. m(oid org \<mapsto> org)) orgs Map.empty
      in map (\<lambda>p. projectMatch
                     (p\<lparr>organization := (case org_id p of None \<Rightarrow> None | Some i \<Rightarrow> orgMap i)\<rparr>) r)
           openProjects)"

text \<open>The researcher-side finder takes its options with defaults: a field left out is
  20, 0 or 50.\<close>

record raw_options =
  raw_limit :: "nat option"
  raw_offset :: "nat option"
  raw_minScore :: "rat option"

definition with_defaults :: "raw_options \<Rightarrow> options" where
  "with_defaults raw =
     \<lparr>limit = (case raw_limit raw of None \<Rightarrow> 20 | Some l \<Rightarrow> l),
      offset = (case raw_offset raw of None \<Rightarrow> 0 | Some k \<Rightarrow> k),
      minScore = (case raw_minScore raw of None \<Rightarrow> 50 | Some s \<Rightarrow> s)\<rparr>"

definition findMatchesForResearcher ::
  "database \<Rightarrow> nat \<Rightarrow> raw_options \<Rightarrow> error + project_summary finder_result" where
  "findMatchesForResearcher db researcherId raw =
     (case ResearcherProfile_findOne db researcherId of
        None \<Rightarrow> Inl (Error ''Researcher profile not found'')
      | Some r \<Rightarrow> Inr (paginate (with_defaults raw) (researcherCandidates db r)))"

subsection \<open>The controller's validation of the options\<close>

text \<open>\<^verbatim>\<open>getProjectMatches\<close> and \<^verbatim>\<open>getResearcherMatches\<close> read \<open>limit\<close>, \<open>offset\<close> and
  \<open>minScore\<close> from the query and clamp them before they call a finder. The arguments
  are what \<^verbatim>\<open>parseInt\<close> and \<^verbatim>\<open>parseFloat\<close> read from the query values.\<close>

definition validLimit :: "int option \<Rightarrow> int" where
  "validLimit l = min (max (num_or l 20) 1) 100"

definition validOffset :: "int option \<Rightarrow> int" where
  "validOffset k = max (num_or k 0) 0"

definition validMinScore :: "rat option \<Rightarrow> rat" where
  "validMinScore s = max (min (num_or s 50) 100) 0"

definition valid_options :: "int option \<Rightarrow> int option \<Rightarrow> rat option \<Rightarrow> options" where
  "valid_options l k s =
     \<lparr>limit = nat (validLimit l), offset = nat (validOffset k), minScore = validMinScore s\<rparr>"

subsection \<open>The explain handler\<close>

datatype explanation =
    ExpertiseOverlapJaccard
  | RequiredMethodsCoverage
  | BudgetCompatibility
  | StartDateAndCapacity
  | BasedOnCompletedProjects "int option"
  | DomainAlignment

record factor =
  score :: rat
  f_max :: rat
  percentage :: rat
  explanation :: explanation

record detailedBreakdown =
  d_expertise :: factor
  d_methods :: factor
  d_budget :: factor
  d_availability :: factor
  d_experience :: factor
  d_domain :: factor

record explain_body =
  e_totalScore :: rat
  e_breakdown :: detailedBreakdown
  e_strengths :: "strength list"
  e_concerns :: "concern list"
  e_project :: "nat \<times> string option"
  e_researcher :: "nat option \<times> string option \<times> string option"

text \<open>A response: the 200 body, or a status code with its error text.\<close>

datatype explain_response = Success explain_body | Failure nat string

record explain_request =
  q_projectId :: "nat option"
  q_researcherId :: "nat option"
  authenticated :: bool

text \<open>Modelled from the spec: the association \<^verbatim>\<open>Project.organization\<close> that the
  handler's \<^verbatim>\<open>include\<close> joins is declared in the models' index, which is not among
  the sources. The spec's data model gives a project an organization reference; the join
  is the organization the project's \<open>org_id\<close> names, absent when there is none
  (\<^verbatim>\<open>required: false\<close>).\<close>

definition Project_findByPk_include :: "database \<Rightarrow> nat \<Rightarrow> project option" where
  "Project_findByPk_include db pid =
     (case Project_findByPk db pid of
        None \<Rightarrow> None
      | Some p \<Rightarrow>
          Some (p\<lparr>organization :=
                     (case org_id p of None \<Rightarrow> None | Some i \<Rightarrow> Organization_findByPk db i)\<rparr>))"

definition explainMatch :: "database \<Rightarrow> explain_request \<Rightarrow> explain_response" where
  "explainMatch db req =
     (case (q_projectId req, q_researcherId req) of
        (Some projectId, Some researcherId) \<Rightarrow>
          if \<not> authenticated req then Failure 401 ''Authentication required''
          else
            (case (Project_findByPk_include db projectId,
                   ResearcherProfile_findOne db researcherId) of
               (Some p, Some r) \<Rightarrow>
                 (let scoreData = calculateMatchScore p r;
                      b = breakdown scoreData
                  in Success
                       \<lparr>e_totalScore = totalScore scoreData,
                        e_breakdown =
                          \<lparr>d_expertise =
                             \<lparr>score = b_expertise b, f_max = 30,
                              percentage = Math_round ((b_expertise b / 30) * 100),
                              explanation = ExpertiseOverlapJaccard\<rparr>,
                           d_methods =
                             \<lparr>score = b_methods b, f_max = 25,
                              percentage = Math_round ((b_methods b / 25) * 100),
                              explanation = RequiredMethodsCoverage\<rparr>,
                           d_budget =
                             \<lparr>score = b_budget b, f_max = 15,
                              percentage = Math_round ((b_budget b / 15) * 100),
                              explanation = BudgetCompatibility\<rparr>,
                           d_availability =
                             \<lparr>score = b_availability b, f_max = 10,
                              percentage = Math_round ((b_availability b / 10) * 100),
                              explanation = StartDateAndCapacity\<rparr>,
                           d_experience =
                             \<lparr>score = b_experience b, f_max = 10,
                              percentage = Math_round ((b_experience b / 10) * 100),
                              explanation = BasedOnCompletedProjects (projects_completed r)\<rparr>,
                           d_domain =
                             \<lparr>score = b_domain b, f_max = 10,
                              percentage = Math_round ((b_domain b / 10) * 100),
                              explanation = DomainAlignment\<rparr>\<rparr>,
                        e_strengths = strengths scoreData,
                        e_concerns = concerns scoreData,
                        e_project = (project_id p, title p),
                        e_researcher = (user_id r, r_title r, institution r)\<rparr>)
             | _ \<Rightarrow> Failure 404 ''Project or researcher not found'')
      | _ \<Rightarrow> Failure 400 ''Both projectId and researcherId are required'')"

subsection \<open>The specification's wording, for comparison\<close>

text \<open>The overlap fraction as the specification words it: zero when a bound is missing or
  the ranges share no interval of positive length, otherwise the length of the overlap
  over the average length of the two ranges, capped at one. A bound that is present and
  zero is a bound like any other here.\<close>

definition rangeOverlap_claimed :: "range \<Rightarrow> range \<Rightarrow> rat" where
  "rangeOverlap_claimed a b =
     (case (rmin a, rmax a, rmin b, rmax b) of
        (Some amin, Some amax, Some bmin, Some bmax) \<Rightarrow>
          (let lo = max amin bmin; hi = min amax bmax
           in if lo < hi
              then min ((hi - lo) / (((amax - amin) + (bmax - bmin)) / 2)) 1
              else 0)
      | _ \<Rightarrow> 0)"

text \<open>The budget rule as the specification words it, for a given number of hours: the
  project's range is \<open>budget_min\<close> to \<open>budget_max\<close>, the latter defaulting to the former
  when absent; the researcher's cost range is the resolved rate range times the hours; the
  score is the overlap fraction of the two, times 15, to one decimal place.\<close>

definition budget_rule :: "project \<Rightarrow> researcher \<Rightarrow> rat \<Rightarrow> rat" where
  "budget_rule p r hours =
     (let bmin = (case budget_min p of None \<Rightarrow> 0 | Some v \<Rightarrow> v);
          bmax = (case budget_max p of None \<Rightarrow> bmin | Some v \<Rightarrow> v)
      in Math_round
           (checkRangeOverlap
              \<lparr>rmin = Some bmin, rmax = Some bmax\<rparr>
              \<lparr>rmin = Some (rateMin r * hours), rmax = Some (rateMax r * hours)\<rparr> * 15 * 10) / 10)"

text \<open>The hours of a project when the default of 100 applies to an absent field only, and
  when it applies to an absent or zero field.\<close>

definition hours_default_absent :: "project \<Rightarrow> rat" where
  "hours_default_absent p = (case estimated_hours p of None \<Rightarrow> 100 | Some h \<Rightarrow> of_int h)"

definition hours_default_absent_or_zero :: "project \<Rightarrow> rat" where
  "hours_default_absent_or_zero p =
     (case estimated_hours p of None \<Rightarrow> 100 | Some h \<Rightarrow> if h = 0 then 100 else of_int h)"

text \<open>The overlap fraction of the budget rule, before the factor 15 and the rounding.\<close>

definition budget_fraction :: "project \<Rightarrow> researcher \<Rightarrow> rat \<Rightarrow> rat" where
  "budget_fraction p r hours =
     (let bmin = (case budget_min p of None \<Rightarrow> 0 | Some v \<Rightarrow> v);
          bmax = (case budget_max p of None \<Rightarrow> bmin | Some v \<Rightarrow> v)
      in checkRangeOverlap
           \<lparr>rmin = Some bmin, rmax = Some bmax\<rparr>
           \<lparr>rmin = Some (rateMin r * hours), rmax = Some (rateMax r * hours)\<rparr>)"

text \<open>A number with at most one decimal place.\<close>

definition one_decimal :: "rat \<Rightarrow> bool" where
  "one_decimal x = (x * 10 \<in> \<int>)"

text \<open>\<open>s\<close> is \<open>x\<close> rounded to a tenth: it has at most one decimal place and lies
  within half a tenth of \<open>x\<close>. The margin of \<open>1 / 1000000000\<close> is for the source's double
  arithmetic, whose error before \<^verbatim>\<open>Math.round\<close> decides a tie and anything closer to a
  tie than that error; in exact arithmetic the margin is not needed.\<close>

definition rounds_to_tenth :: "rat \<Rightarrow> rat \<Rightarrow> bool" where
  "rounds_to_tenth s x = (one_decimal s \<and> \<bar>s - x\<bar> \<le> 1 / 20 + 1 / 1000000000)"



text \<open>The finders' contract: \<open>res\<close> is a page of the candidates \<open>cands\<close> when its matches
  are the window \<open>[offset, offset + limit)\<close> of a list \<open>ranked\<close> that holds exactly the
  candidates scoring at least \<open>minScore\<close>, in descending order of score, candidates of
  equal score in the order of \<open>cands\<close>; \<open>total\<close> counts the candidates kept and
  \<open>hasMore\<close> tells whether the window ends before they do.\<close>

definition is_page_of :: "options \<Rightarrow> 'c match list \<Rightarrow> 'c finder_result \<Rightarrow> bool" where
  "is_page_of opts cands res =
     (let kept = filter (\<lambda>m. minScore opts \<le> matchScore m) cands
      in (\<exists>ranked.
            mset ranked = mset kept
            \<and> sorted_wrt (\<lambda>a b. matchScore a \<ge> matchScore b) ranked
            \<and> (\<forall>k. filter (\<lambda>m. matchScore m = k) ranked = filter (\<lambda>m. matchScore m = k) kept)
            \<and> matches res = take (limit opts) (drop (offset opts) ranked))
         \<and> total (pagination res) = length kept
         \<and> hasMore (pagination res) = (offset opts + limit opts < length kept))"

subsection \<open>Example records\<close>

definition example_organization :: organization where
  "example_organization =
     \<lparr>oid = 3, org_name = Some ''Health Trust'', focus_areas = Some ''Health, Education''\<rparr>"

definition example_project :: project where
  "example_project =
     \<lparr>project_id = 1,
      title = Some ''Clinic survey'',
      problem = Some ''Statistics, Survey Design'',
      outcomes = None,
      timeline = None,
      status = Some ''open'',
      methods_required = Some ''survey,interview'',
      budget_min = Some 1000,
      budget_max = Some 10000,
      estimated_hours = None,
      start_date = NoDate,
      org_id = Some 3,
      organization = None\<rparr>"

definition example_researcher :: researcher where
  "example_researcher =
     \<lparr>user_id = Some 7,
      r_title = Some ''Dr'',
      affiliation = None,
      institution = Some ''State University'',
      expertise = Some ''statistics'',
      methods = Some ''survey'',
      domains = Some ''health'',
      tools = Some ''R'',
      research_interests = None,
      compliance_certifications = None,
      availability = None,
      rate_min = Some 50,
      rate_max = Some 50,
      hourly_rate_min = None,
      hourly_rate_max = None,
      current_projects_count = Some 1,
      max_concurrent_projects = None,
      available_start_date = NoDate,
      projects_completed = Some 7\<rparr>"

definition example_user :: user where
  "example_user =
     \<lparr>uid = 7, name = Some ''Ada'', email = Some ''ada@example.org'',
      account_status = Some ''active'', deleted_at = None\<rparr>"

definition example_db :: database where
  "example_db =
     \<lparr>projects = [example_project],
      organizations = [example_organization],
      researcher_profiles = [example_researcher],
      users = [example_user]\<rparr>"

text \<open>A database for ranking. Five profiles: users 7 and 10 score alike, user 8 scores low,
  user 9 scores highest, and user 11 has a suspended account. Five projects: 1 and 4 score
  alike for the researcher of user 7, 2 is closed, 3 scores highest, 5 scores low.\<close>

definition ranking_db :: database where
  "ranking_db =
     \<lparr>projects =
        [example_project,
         example_project\<lparr>project_id := 2, status := Some ''closed''\<rparr>,
         example_project\<lparr>project_id := 3, methods_required := None\<rparr>,
         example_project\<lparr>project_id := 4\<rparr>,
         example_project\<lparr>project_id := 5, problem := None, org_id := None,
                          methods_required := Some ''ethnography''\<rparr>],
      organizations = [example_organization],
      researcher_profiles =
        [example_researcher,
         example_researcher\<lparr>user_id := Some 8, expertise := None, methods := None,
                             domains := None, projects_completed := None\<rparr>,
         example_researcher\<lparr>user_id := Some 9, methods := Some ''Survey, Interview''\<rparr>,
         example_researcher\<lparr>user_id := Some 10\<rparr>,
         example_researcher\<lparr>user_id := Some 11, methods := Some ''Survey, Interview''\<rparr>],
      users =
        [example_user,
         example_user\<lparr>uid := 8\<rparr>,
         example_user\<lparr>uid := 9\<rparr>,
         example_user\<lparr>uid := 10\<rparr>,
         example_user\<lparr>uid := 11, account_status := Some ''suspended''\<rparr>]\<rparr>"

text \<open>A researcher with both pairs of rate fields, as the repository's model test stores
  them, and a project whose budget is the cost range of the hourly pair at 100 hours.\<close>

definition two_rates_researcher :: researcher where
  "two_rates_researcher =
     example_researcher\<lparr>rate_min := Some 75, rate_max := Some 125,
                        hourly_rate_min := Some 80, hourly_rate_max := Some 130\<rparr>"

definition two_rates_project :: project where
  "two_rates_project = example_project\<lparr>budget_min := Some 8000, budget_max := Some 13000\<rparr>"

text \<open>A project whose \<open>estimated_hours\<close> is present and zero, and a researcher whose cost
  at 100 hours is the project's budget range.\<close>

definition zero_hours_project :: project where
  "zero_hours_project =
     example_project\<lparr>budget_min := Some 1000, budget_max := Some 5000, estimated_hours := Some 0\<rparr>"

definition zero_hours_researcher :: researcher where
  "zero_hours_researcher = example_researcher\<lparr>rate_min := Some 10, rate_max := Some 50\<rparr>"

text \<open>A scored candidate that is only a number and a score, for examples of the
  finders' tail.\<close>

definition scored :: "nat \<Rightarrow> rat \<Rightarrow> nat match" where
  "scored c s =
     \<lparr>candidate = c,
      matchScore = s,
      scoreBreakdown = \<lparr>b_expertise = 0, b_methods = 0, b_budget = 0,
                         b_availability = 0, b_experience = 0, b_domain = 0\<rparr>,
      m_strengths = [],
      m_concerns = [],
      hasApplied = False,
      isBookmarked = False\<rparr>"

section \<open>Properties\<close>

subsection \<open>Rounding\<close>

lemma Math_round_nonneg: "0 \<le> x \<Longrightarrow> 0 \<le> Math_round x"
  by (simp add: Math_round_def)

lemma Math_round_le: "x \<le> of_int n \<Longrightarrow> Math_round x \<le> of_int n"
proof -
  assume "x \<le> of_int n"
  then have "x + 1 / 2 < of_int n + 1" by simp
  then have "\<lfloor>x + 1 / 2\<rfloor> \<le> n" by (simp add: floor_le_iff)
  then show ?thesis by (simp add: Math_round_def)
qed

lemma Math_round_of_int: "Math_round (of_int n) = of_int n"
proof -
  have "\<lfloor>(of_int n :: rat) + 1 / 2\<rfloor> = n"
    by (rule floor_unique) simp_all
  then show ?thesis by (simp add: Math_round_def)
qed

lemma Math_round_zero: "Math_round 0 = 0"
  using Math_round_of_int[of 0] by simp

lemma one_decimal_round: "one_decimal (Math_round x / 10)"
  by (simp add: one_decimal_def Math_round_def)

lemma one_decimal_numeral: "one_decimal 0" "one_decimal (numeral n)"
  by (simp_all add: one_decimal_def)

text \<open>\<^verbatim>\<open>Math.round(x * 10) / 10\<close> is \<open>x\<close> rounded to a tenth.\<close>

lemma Math_round_near: "\<bar>Math_round y - y\<bar> \<le> 1 / 2"
proof -
  define k where "k = (of_int \<lfloor>y + 1 / 2\<rfloor> :: rat)"
  have a: "k \<le> y + 1 / 2" unfolding k_def by (rule of_int_floor_le)
  have b: "y + 1 / 2 < k + 1" unfolding k_def using floor_correct[of "y + 1 / 2"] by simp
  have "\<bar>k - y\<bar> \<le> 1 / 2" using a b by linarith
  then show ?thesis by (simp only: Math_round_def k_def)
qed

lemma Math_round_tenth: "rounds_to_tenth (Math_round (x * 10) / 10) x"
proof -
  have "\<bar>Math_round (x * 10) / 10 - x\<bar> = \<bar>Math_round (x * 10) - x * 10\<bar> / 10"
    by (simp add: field_simps abs_if)
  also have "\<dots> \<le> (1 / 2) / 10"
    using Math_round_near[of "x * 10"] by (simp only: divide_right_mono)
  finally show ?thesis
    by (simp add: rounds_to_tenth_def one_decimal_round)
qed

text \<open>A fraction \<open>s\<close> of \<open>k\<close> points, rounded to a tenth, stays between 0 and \<open>k\<close>.\<close>

lemma tenth_bounds:
  assumes "0 \<le> s" and "s \<le> 1" and "0 \<le> (k::int)"
  shows "0 \<le> Math_round (s * of_int k * 10) / 10 \<and> Math_round (s * of_int k * 10) / 10 \<le> of_int k"
proof -
  have a: "0 \<le> s * of_int k * 10" using assms by simp
  have "s * of_int k \<le> 1 * of_int k"
    using assms by (intro mult_right_mono) simp_all
  then have "s * of_int k * 10 \<le> of_int (k * 10)" by simp
  then have "Math_round (s * of_int k * 10) \<le> of_int (k * 10)" by (rule Math_round_le)
  then show ?thesis using Math_round_nonneg[OF a] by simp
qed

subsection \<open>Jaccard similarity\<close>

lemma length_new_Set: "length (new_Set xs) = card (set xs)"
  by (simp add: new_Set_def length_remdups_card_conv)

lemma set_new_Set: "set (new_Set xs) = set xs"
  by (simp add: new_Set_def)

lemma new_Set_eq_Nil: "(new_Set xs = []) = (xs = [])"
  by (simp add: new_Set_def)

lemma jaccard_cases:
  "calculateJaccardSimilarity xs ys =
     (if set xs = {} \<or> set ys = {} then 0
      else of_nat (card (set xs \<inter> set ys)) / of_nat (card (set xs \<union> set ys)))"
proof -
  have "set (filter (\<lambda>x. x \<in> set ys) xs) = set xs \<inter> set ys" by auto
  then show ?thesis
    by (simp add: calculateJaccardSimilarity_def Let_def length_new_Set set_new_Set new_Set_eq_Nil)
qed

lemma jaccard_bounds:
  "0 \<le> calculateJaccardSimilarity xs ys \<and> calculateJaccardSimilarity xs ys \<le> 1"
proof -
  have "card (set xs \<inter> set ys) \<le> card (set xs \<union> set ys)"
    by (rule card_mono) auto
  then have "(of_nat (card (set xs \<inter> set ys)) :: rat) \<le> of_nat (card (set xs \<union> set ys))"
    by (simp only: of_nat_le_iff)
  moreover have "set xs \<noteq> {} \<Longrightarrow> 0 < card (set xs \<union> set ys)"
    by (simp add: card_gt_0_iff)
  ultimately show ?thesis
    by (simp add: jaccard_cases divide_le_eq_1)
qed

text \<open>
  Claim C6. For all arrays \<open>xs\<close> and \<open>ys\<close>, read as the sets of their elements,
  \<open>calculateJaccardSimilarity\<close> is the size of the intersection over the size of the union
  (wherever the union is not empty), lies between 0 and 1, and is 0 when either set is
  empty; on \<open>{a, b}\<close> and \<open>{b, c}\<close> it is one third.
\<close>

theorem calculateJaccardSimilarity_spec:
  "(set xs \<union> set ys \<noteq> {} \<longrightarrow>
      calculateJaccardSimilarity xs ys
        = of_nat (card (set xs \<inter> set ys)) / of_nat (card (set xs \<union> set ys)))
   \<and> 0 \<le> calculateJaccardSimilarity xs ys \<and> calculateJaccardSimilarity xs ys \<le> 1
   \<and> (set xs = {} \<or> set ys = {} \<longrightarrow> calculateJaccardSimilarity xs ys = 0)
   \<and> calculateJaccardSimilarity [''a'', ''b''] [''b'', ''c''] = 1 / 3"
proof -
  have ex: "calculateJaccardSimilarity [''a'', ''b''] [''b'', ''c''] = 1 / 3"
    by (simp add: calculateJaccardSimilarity_def new_Set_def)
  have e: "set xs = {} \<or> set ys = {} \<Longrightarrow> card (set xs \<inter> set ys) = 0" by auto
  show ?thesis using jaccard_bounds[of xs ys] ex e
    by (auto simp add: jaccard_cases)
qed

text \<open>The theorem at two inputs: an array with a repeated element against a second
  array, and the empty array against the same.\<close>

theorem calculateJaccardSimilarity_spec_witness:
  "set [''x'', ''y'', ''x''] \<union> set [''y'', ''z''] \<noteq> {}
   \<and> calculateJaccardSimilarity [''x'', ''y'', ''x''] [''y'', ''z''] = 1 / 3
   \<and> (set ([] :: string list) = {} \<or> set [''y'', ''z''] = {})
   \<and> calculateJaccardSimilarity [] [''y'', ''z''] = 0"
proof -
  have c: "card (set [''x'', ''y'', ''x''] \<inter> set [''y'', ''z'']) = 1"
         "card (set [''x'', ''y'', ''x''] \<union> set [''y'', ''z'']) = 3"
    by (simp_all add: card_insert_if)
  show ?thesis
    using calculateJaccardSimilarity_spec[of "[''x'', ''y'', ''x'']" "[''y'', ''z'']"]
          calculateJaccardSimilarity_spec[of "[]" "[''y'', ''z'']"] c
    by simp
qed

subsection \<open>Range overlap\<close>

lemma checkRangeOverlap_bounds:
  "0 \<le> checkRangeOverlap a b \<and> checkRangeOverlap a b \<le> 1"
proof -
  have "0 \<le> (oh - ol) / ((x + y) / 2)" if "ol < oh" "oh - ol \<le> x" "oh - ol \<le> y" for ol oh x y :: rat
    using that by simp
  then show ?thesis
    by (auto simp add: checkRangeOverlap_def Let_def min_def max_def not_le)
qed

lemma checkRangeOverlap_falsy:
  "falsy (rmin a) \<or> falsy (rmax a) \<or> falsy (rmin b) \<or> falsy (rmax b) \<Longrightarrow> checkRangeOverlap a b = 0"
  by (simp add: checkRangeOverlap_def)

lemma checkRangeOverlap_point_left:
  "checkRangeOverlap \<lparr>rmin = Some x, rmax = Some x\<rparr> b = 0"
  by (auto simp add: checkRangeOverlap_def Let_def min_def max_def)

lemma checkRangeOverlap_point_right:
  "checkRangeOverlap a \<lparr>rmin = Some x, rmax = Some x\<rparr> = 0"
  by (auto simp add: checkRangeOverlap_def Let_def min_def max_def)

text \<open>
  Claim C5, as stated, fails where a bound is present and zero: the range 0 to 10 and the
  range 5 to 15 overlap on 5 to 10, which the stated rule scores 5 / 10, and
  \<open>checkRangeOverlap\<close> returns 0, its guard \<^verbatim>\<open>!range1.min\<close> taking the zero for a
  missing bound.
\<close>

theorem checkRangeOverlap_zero_bound_counterexample:
  "checkRangeOverlap \<lparr>rmin = Some 0, rmax = Some 10\<rparr> \<lparr>rmin = Some 5, rmax = Some 15\<rparr> = 0
   \<and> rangeOverlap_claimed \<lparr>rmin = Some 0, rmax = Some 10\<rparr> \<lparr>rmin = Some 5, rmax = Some 15\<rparr> = 1 / 2"
  by (simp add: checkRangeOverlap_def rangeOverlap_claimed_def falsy_def)

text \<open>
  Claim C5, amended. For all ranges, \<open>checkRangeOverlap\<close> returns 0 when a bound of either
  range is missing or zero; when no bound is missing or zero it returns what the
  specification words: 0 when the ranges share no interval of positive length, otherwise
  the length of the overlap over the average length of the two ranges, capped at 1. The
  result lies between 0 and 1, and the ranges 10 to 20 and 15 to 25 give one half.
\<close>

theorem checkRangeOverlap_amended:
  "((falsy (rmin a) \<or> falsy (rmax a) \<or> falsy (rmin b) \<or> falsy (rmax b))
       \<longrightarrow> checkRangeOverlap a b = 0)
   \<and> (\<not> (falsy (rmin a) \<or> falsy (rmax a) \<or> falsy (rmin b) \<or> falsy (rmax b))
       \<longrightarrow> checkRangeOverlap a b = rangeOverlap_claimed a b)
   \<and> 0 \<le> checkRangeOverlap a b \<and> checkRangeOverlap a b \<le> 1
   \<and> checkRangeOverlap \<lparr>rmin = Some 10, rmax = Some 20\<rparr> \<lparr>rmin = Some 15, rmax = Some 25\<rparr> = 1 / 2"
proof -
  have ex: "checkRangeOverlap \<lparr>rmin = Some 10, rmax = Some 20\<rparr> \<lparr>rmin = Some 15, rmax = Some 25\<rparr> = 1 / 2"
    by (simp add: checkRangeOverlap_def falsy_def)
  have z: "(falsy (rmin a) \<or> falsy (rmax a) \<or> falsy (rmin b) \<or> falsy (rmax b))
       \<longrightarrow> checkRangeOverlap a b = 0"
    by (simp add: checkRangeOverlap_def)
  have nz: "\<not> (falsy (rmin a) \<or> falsy (rmax a) \<or> falsy (rmin b) \<or> falsy (rmax b))
       \<longrightarrow> checkRangeOverlap a b = rangeOverlap_claimed a b"
    by (auto simp add: checkRangeOverlap_def rangeOverlap_claimed_def falsy_def Let_def not_le
             split: option.splits)
  show ?thesis using ex z nz checkRangeOverlap_bounds[of a b] by blast
qed

text \<open>The amended theorem at a range that starts at zero, and at two ranges with no zero
  bound.\<close>

theorem checkRangeOverlap_amended_witness:
  "falsy (rmin \<lparr>rmin = Some 0, rmax = Some 10\<rparr>)
   \<and> checkRangeOverlap \<lparr>rmin = Some 0, rmax = Some 10\<rparr> \<lparr>rmin = Some 5, rmax = Some 15\<rparr> = 0
   \<and> \<not> (falsy (Some 1) \<or> falsy (Some 11) \<or> falsy (Some 6) \<or> falsy (Some 16))
   \<and> checkRangeOverlap \<lparr>rmin = Some 1, rmax = Some 11\<rparr> \<lparr>rmin = Some 6, rmax = Some 16\<rparr>
       = rangeOverlap_claimed \<lparr>rmin = Some 1, rmax = Some 11\<rparr> \<lparr>rmin = Some 6, rmax = Some 16\<rparr>
   \<and> rangeOverlap_claimed \<lparr>rmin = Some 1, rmax = Some 11\<rparr> \<lparr>rmin = Some 6, rmax = Some 16\<rparr> = 1 / 2"
proof -
  have f: "falsy (Some 0)" "\<not> falsy (Some 1)" "\<not> falsy (Some 11)" "\<not> falsy (Some 6)" "\<not> falsy (Some 16)"
    by (simp_all add: falsy_def)
  have v: "rangeOverlap_claimed \<lparr>rmin = Some 1, rmax = Some 11\<rparr> \<lparr>rmin = Some 6, rmax = Some 16\<rparr> = 1 / 2"
    by (simp add: rangeOverlap_claimed_def)
  show ?thesis
    using checkRangeOverlap_amended[of "\<lparr>rmin = Some 0, rmax = Some 10\<rparr>" "\<lparr>rmin = Some 5, rmax = Some 15\<rparr>"]
          checkRangeOverlap_amended[of "\<lparr>rmin = Some 1, rmax = Some 11\<rparr>" "\<lparr>rmin = Some 6, rmax = Some 16\<rparr>"]
          f v
    by simp
qed

subsection \<open>Methods score\<close>






subsection \<open>Budget score\<close>

lemma projectMin_zero_iff: "projectMin p = 0 \<longleftrightarrow> budget_min p = None \<or> budget_min p = Some 0"
  by (simp add: projectMin_def num_or_def split: option.splits)

lemma rateMin_zero_iff:
  "rateMin r = 0 \<longleftrightarrow>
     (rate_min r = None \<or> rate_min r = Some 0)
     \<and> (hourly_rate_min r = None \<or> hourly_rate_min r = Some 0)"
  by (simp add: rateMin_def num_or_def split: option.splits)

lemma estimatedHours_eq: "estimatedHours p = hours_default_absent_or_zero p"
  by (simp add: estimatedHours_def hours_default_absent_or_zero_def num_or_def split: option.splits)

text \<open>
  Claim C10. When the researcher's resolved rate minimum equals the resolved rate maximum
  and both are positive, the budget score is 0 for every project: the cost range is a
  single point, and \<open>checkRangeOverlap\<close> wants the lower end of the overlap strictly below
  the upper end.
\<close>

theorem calculateBudgetScore_point_rate:
  assumes "rateMin r = rateMax r" and "0 < rateMin r"
  shows "calculateBudgetScore p r = 0"
  using assms
  by (simp add: calculateBudgetScore_def Let_def checkRangeOverlap_point_right Math_round_zero)

text \<open>The theorem at a researcher charging 50 to 50 and a project of 100 hours with a
  budget of 1000 to 10000: the cost of 5000 lies strictly inside the budget.\<close>

theorem calculateBudgetScore_point_rate_witness:
  "rateMin example_researcher = rateMax example_researcher
   \<and> 0 < rateMin example_researcher
   \<and> projectMin example_project < rateMin example_researcher * estimatedHours example_project
   \<and> rateMax example_researcher * estimatedHours example_project < projectMax example_project
   \<and> calculateBudgetScore example_project example_researcher = 0"
proof -
  have a: "rateMin example_researcher = 50" "rateMax example_researcher = 50"
    by (simp_all add: rateMin_def rateMax_def example_researcher_def num_or_def)
  have b: "projectMin example_project = 1000" "projectMax example_project = 10000"
          "estimatedHours example_project = 100"
    by (simp_all add: projectMin_def projectMax_def estimatedHours_def example_project_def num_or_def)
  show ?thesis
    using calculateBudgetScore_point_rate[of example_researcher example_project]
    by (simp add: a b)
qed

text \<open>
  Claim C4, as stated, fails where \<open>estimated_hours\<close> is present and zero: the default of
  100 hours applies to it too (\<^verbatim>\<open>parseInt(project.estimated_hours) || 100\<close>). For a
  budget of 1000 to 5000 and a rate of 10 to 50 the code scores 15, the cost range being
  1000 to 5000; with the default kept to an absent field the cost range is 0 to 0 and the
  rule scores 0.
\<close>

theorem calculateBudgetScore_zero_hours_counterexample:
  "estimated_hours zero_hours_project = Some 0
   \<and> calculateBudgetScore zero_hours_project zero_hours_researcher = 15
   \<and> budget_rule zero_hours_project zero_hours_researcher (hours_default_absent zero_hours_project) = 0"
proof -
  have r: "Math_round 0 = 0" "Math_round 150 = 150"
    using Math_round_of_int[of 0] Math_round_of_int[of 150] by simp_all
  show ?thesis
    by (simp add: zero_hours_project_def zero_hours_researcher_def example_project_def
          example_researcher_def calculateBudgetScore_def budget_rule_def hours_default_absent_def
          projectMin_def projectMax_def estimatedHours_def rateMin_def rateMax_def num_or_def
          checkRangeOverlap_def falsy_def r)
qed

text \<open>In the exact arithmetic of the embedding the score is the value of the rule with
  the hours defaulting when absent or zero. A \<open>budget_max\<close> of zero falls back to
  \<open>budget_min\<close> in the code and stays zero in the rule; both give the score 0.\<close>

lemma calculateBudgetScore_exact_rule:
  "calculateBudgetScore p r = budget_rule p r (hours_default_absent_or_zero p)"
  proof (cases "projectMin p = 0 \<or> rateMin r = 0")
    case True
    then have "budget_rule p r (hours_default_absent_or_zero p) = 0"
      by (auto simp add: budget_rule_def Let_def checkRangeOverlap_falsy falsy_def Math_round_zero
            projectMin_def num_or_def split: option.splits)
    then show ?thesis using True by (simp add: calculateBudgetScore_def)
  next
    case False
    then obtain v where v: "budget_min p = Some v" "v \<noteq> 0" "projectMin p = v"
      by (auto simp add: projectMin_def num_or_def split: option.splits if_splits)
    show ?thesis
    proof (cases "budget_max p = None \<or> budget_max p = Some 0")
      case True
      then have "projectMax p = v" using v
        by (auto simp add: projectMax_def num_or_def)
      then show ?thesis using False v True
        by (auto simp add: calculateBudgetScore_def budget_rule_def Let_def estimatedHours_eq
              checkRangeOverlap_point_left checkRangeOverlap_falsy falsy_def Math_round_zero)
    next
      case False
      then obtain w where w: "budget_max p = Some w" "w \<noteq> 0" by auto
      then have "projectMax p = w" by (simp add: projectMax_def num_or_def)
      then show ?thesis using \<open>\<not> (projectMin p = 0 \<or> rateMin r = 0)\<close> v w
        by (simp add: calculateBudgetScore_def budget_rule_def Let_def estimatedHours_eq)
    qed
  qed

lemma budget_rule_fraction:
  "budget_rule p r hours = Math_round (budget_fraction p r hours * 15 * 10) / 10"
  by (simp add: budget_rule_def budget_fraction_def Let_def)

text \<open>
  Claim C4, amended. For every project and researcher, the budget score is the overlap
  fraction between the project's budget range (\<open>budget_max\<close> defaulting to \<open>budget_min\<close>
  when absent) and the researcher's cost range (the resolved rate range times
  \<open>estimated_hours\<close>, which defaults to 100 when absent or zero), times 15 and rounded to a
  tenth; and it is 0 whenever the project's budget minimum is zero or absent, or the
  researcher's rate minimum is (both \<open>rate_min\<close> and \<open>hourly_rate_min\<close> are zero or
  absent).
\<close>

theorem calculateBudgetScore_amended:
  "rounds_to_tenth (calculateBudgetScore p r)
     (budget_fraction p r (hours_default_absent_or_zero p) * 15)
   \<and> (budget_min p = None \<or> budget_min p = Some 0
        \<or> ((rate_min r = None \<or> rate_min r = Some 0)
            \<and> (hourly_rate_min r = None \<or> hourly_rate_min r = Some 0))
        \<longrightarrow> calculateBudgetScore p r = 0)"
proof -
  have z: "budget_min p = None \<or> budget_min p = Some 0
        \<or> ((rate_min r = None \<or> rate_min r = Some 0)
            \<and> (hourly_rate_min r = None \<or> hourly_rate_min r = Some 0))
        \<longrightarrow> calculateBudgetScore p r = 0"
    using projectMin_zero_iff[of p] rateMin_zero_iff[of r]
    by (simp add: calculateBudgetScore_def)
  have "rounds_to_tenth (calculateBudgetScore p r)
          (budget_fraction p r (hours_default_absent_or_zero p) * 15)"
    unfolding calculateBudgetScore_exact_rule budget_rule_fraction
    by (rule Math_round_tenth)
  then show ?thesis using z by blast
qed

text \<open>The amended theorem at the project with zero hours, whose overlap fraction at 100
  hours is 1, and at a project whose budget minimum is zero.\<close>

theorem calculateBudgetScore_amended_witness:
  "hours_default_absent_or_zero zero_hours_project = 100
   \<and> budget_fraction zero_hours_project zero_hours_researcher 100 = 1
   \<and> rounds_to_tenth (calculateBudgetScore zero_hours_project zero_hours_researcher) (1 * 15)
   \<and> budget_min (example_project\<lparr>budget_min := Some 0\<rparr>) = Some 0
   \<and> calculateBudgetScore (example_project\<lparr>budget_min := Some 0\<rparr>) example_researcher = 0"
proof -
  have h: "hours_default_absent_or_zero zero_hours_project = 100"
    by (simp add: hours_default_absent_or_zero_def zero_hours_project_def)
  have f: "budget_fraction zero_hours_project zero_hours_researcher 100 = 1"
    by (simp add: budget_fraction_def zero_hours_project_def zero_hours_researcher_def
          example_project_def example_researcher_def rateMin_def rateMax_def num_or_def
          checkRangeOverlap_def falsy_def)
  show ?thesis
    using calculateBudgetScore_amended[of zero_hours_project zero_hours_researcher]
          calculateBudgetScore_amended[of "example_project\<lparr>budget_min := Some 0\<rparr>" example_researcher]
    by (simp add: h f)
qed

text \<open>
  Claim C3. With \<open>rate_min\<close>/\<open>rate_max\<close> of 75/125 and
  \<open>hourly_rate_min\<close>/\<open>hourly_rate_max\<close> of 80/130, all positive, \<open>calculateBudgetScore\<close>
  resolves the rate range 75 to 125, not the 80 to 130 of the \<open>hourly_rate_*\<close> alias that
  the claim gives priority: against a budget of 8000 to 13000 at 100 hours it scores 13.5,
  where the hourly pair scores 15 (the score once the \<open>rate_*\<close> pair is taken away). The
  finder that carries this score builds the same match's \<^verbatim>\<open>rate_min\<close> and
  \<^verbatim>\<open>rate_max\<close> as \<^verbatim>\<open>hourly_rate_* || rate_*\<close>, the alias first, as the claim has it.
\<close>

theorem calculateBudgetScore_two_rates_evaluation:
  "rate_min two_rates_researcher = Some 75 \<and> rate_max two_rates_researcher = Some 125
   \<and> hourly_rate_min two_rates_researcher = Some 80
   \<and> hourly_rate_max two_rates_researcher = Some 130
   \<and> rateMin two_rates_researcher = 75 \<and> rateMax two_rates_researcher = 125
   \<and> calculateBudgetScore two_rates_project two_rates_researcher = 27 / 2
   \<and> calculateBudgetScore two_rates_project
        (two_rates_researcher\<lparr>rate_min := None, rate_max := None\<rparr>) = 15"
proof -
  have r: "Math_round 135 = 135" "Math_round 150 = 150"
    using Math_round_of_int[of 135] Math_round_of_int[of 150] by simp_all
  show ?thesis
    by (simp add: two_rates_project_def two_rates_researcher_def example_project_def
          example_researcher_def calculateBudgetScore_def
          projectMin_def projectMax_def estimatedHours_def rateMin_def rateMax_def num_or_def
          checkRangeOverlap_def falsy_def r)
qed

subsection \<open>Bounds of the scorers and of the total\<close>


lemma calculateExpertiseScore_bounds:
  "0 \<le> calculateExpertiseScore a b \<and> calculateExpertiseScore a b \<le> 30
   \<and> one_decimal (calculateExpertiseScore a b)"
  using tenth_bounds[OF conjunct1[OF jaccard_bounds] conjunct2[OF jaccard_bounds], of 30
          "parseCommaSeparated a" "parseCommaSeparated b"]
  by (simp add: calculateExpertiseScore_def Let_def one_decimal_round one_decimal_numeral)

lemma calculateDomainScore_bounds:
  "0 \<le> calculateDomainScore a b \<and> calculateDomainScore a b \<le> 10
   \<and> one_decimal (calculateDomainScore a b)"
  using tenth_bounds[OF conjunct1[OF jaccard_bounds] conjunct2[OF jaccard_bounds], of 10
          "parseCommaSeparated a" "parseCommaSeparated b"]
  by (simp add: calculateDomainScore_def Let_def one_decimal_round one_decimal_numeral)

lemma matched_fraction_bounds:
  "0 \<le> (of_nat (length (filter P xs)) :: rat) / of_nat (length xs)
   \<and> (of_nat (length (filter P xs)) :: rat) / of_nat (length xs) \<le> 1"
proof -
  have "(of_nat (length (filter P xs)) :: rat) \<le> of_nat (length xs)"
    by (simp only: of_nat_le_iff length_filter_le)
  then show ?thesis
    by (cases "xs = []") (simp_all add: divide_le_eq_1)
qed

lemma calculateMethodsScore_bounds:
  "0 \<le> calculateMethodsScore a b \<and> calculateMethodsScore a b \<le> 25
   \<and> one_decimal (calculateMethodsScore a b)"
  using tenth_bounds[OF conjunct1[OF matched_fraction_bounds] conjunct2[OF matched_fraction_bounds],
          of 25 "\<lambda>method. method \<in> set (parseCommaSeparated b)" "parseCommaSeparated a"]
  by (simp add: calculateMethodsScore_def Let_def one_decimal_round one_decimal_numeral)

lemma calculateBudgetScore_bounds:
  "0 \<le> calculateBudgetScore p r \<and> calculateBudgetScore p r \<le> 15
   \<and> one_decimal (calculateBudgetScore p r)"
  using tenth_bounds[OF conjunct1[OF checkRangeOverlap_bounds] conjunct2[OF checkRangeOverlap_bounds],
          of 15 "\<lparr>rmin = Some (projectMin p), rmax = Some (projectMax p)\<rparr>"
                "\<lparr>rmin = Some (rateMin r * estimatedHours p), rmax = Some (rateMax r * estimatedHours p)\<rparr>"]
  by (simp add: calculateBudgetScore_def Let_def one_decimal_round one_decimal_numeral)

lemma calculateAvailabilityScore_bounds:
  "0 \<le> calculateAvailabilityScore p r \<and> calculateAvailabilityScore p r \<le> 10
   \<and> one_decimal (calculateAvailabilityScore p r)"
  by (simp add: calculateAvailabilityScore_def Let_def one_decimal_numeral)

lemma calculateExperienceScore_bounds:
  "0 \<le> calculateExperienceScore c \<and> calculateExperienceScore c \<le> 10
   \<and> one_decimal (calculateExperienceScore c)"
  by (simp add: calculateExperienceScore_def Let_def one_decimal_numeral)

lemma breakdown_calculateMatchScore:
  "breakdown (calculateMatchScore p r) =
     \<lparr>b_expertise = calculateExpertiseScore (text_or (problem p) (outcomes p)) (expertise r),
      b_methods = calculateMethodsScore (methods_required p) (methods r),
      b_budget = calculateBudgetScore p r,
      b_availability = calculateAvailabilityScore p r,
      b_experience = calculateExperienceScore (projects_completed r),
      b_domain =
        calculateDomainScore
          (case organization p of None \<Rightarrow> None | Some org \<Rightarrow> focus_areas org)
          (domains r)\<rparr>"
  by (simp add: calculateMatchScore_def Let_def)

lemma totalScore_calculateMatchScore:
  "totalScore (calculateMatchScore p r) =
     Math_round
       ((b_expertise (breakdown (calculateMatchScore p r))
         + b_methods (breakdown (calculateMatchScore p r))
         + b_budget (breakdown (calculateMatchScore p r))
         + b_availability (breakdown (calculateMatchScore p r))
         + b_experience (breakdown (calculateMatchScore p r))
         + b_domain (breakdown (calculateMatchScore p r))) * 10) / 10"
  by (simp add: calculateMatchScore_def Let_def Object_values_def)

text \<open>The sub-scores having at most one decimal place, so has their sum, and the final
  rounding leaves it as it is: the total is the sum itself.\<close>

lemma Math_round_Ints: "x \<in> \<int> \<Longrightarrow> Math_round x = x"
  by (auto simp add: Ints_def Math_round_of_int)

lemma totalScore_exact:
  "totalScore (calculateMatchScore p r) =
     calculateExpertiseScore (text_or (problem p) (outcomes p)) (expertise r)
     + calculateMethodsScore (methods_required p) (methods r)
     + calculateBudgetScore p r
     + calculateAvailabilityScore p r
     + calculateExperienceScore (projects_completed r)
     + calculateDomainScore
         (case organization p of None \<Rightarrow> None | Some org \<Rightarrow> focus_areas org) (domains r)"
proof -
  define e where "e = calculateExpertiseScore (text_or (problem p) (outcomes p)) (expertise r)"
  define m where "m = calculateMethodsScore (methods_required p) (methods r)"
  define u where "u = calculateBudgetScore p r"
  define a where "a = calculateAvailabilityScore p r"
  define x where "x = calculateExperienceScore (projects_completed r)"
  define d where "d = calculateDomainScore
         (case organization p of None \<Rightarrow> None | Some org \<Rightarrow> focus_areas org) (domains r)"
  have i: "e * 10 \<in> \<int>" "m * 10 \<in> \<int>" "u * 10 \<in> \<int>" "a * 10 \<in> \<int>" "x * 10 \<in> \<int>" "d * 10 \<in> \<int>"
    using calculateExpertiseScore_bounds calculateMethodsScore_bounds calculateBudgetScore_bounds
          calculateAvailabilityScore_bounds calculateExperienceScore_bounds
          calculateDomainScore_bounds
    unfolding e_def m_def u_def a_def x_def d_def one_decimal_def by blast+
  have "(e + m + u + a + x + d) * 10 = e * 10 + m * 10 + u * 10 + a * 10 + x * 10 + d * 10"
    by (simp add: algebra_simps)
  then have "(e + m + u + a + x + d) * 10 \<in> \<int>"
    using i by (simp only: Ints_add)
  then have "Math_round ((e + m + u + a + x + d) * 10) = (e + m + u + a + x + d) * 10"
    by (rule Math_round_Ints)
  then show ?thesis
    unfolding totalScore_calculateMatchScore breakdown_calculateMatchScore
              e_def m_def u_def a_def x_def d_def
    by simp
qed

text \<open>
  Claim C1. For every project and researcher, the \<open>totalScore\<close> of \<open>calculateMatchScore\<close>
  is the plain sum of the six sub-scores rounded to a tenth; the sub-scores lie between 0
  and 30, 25, 15, 10, 10 and 10 (expertise, methods, budget, availability, experience,
  domain), each with at most one decimal place; and the total lies between 0 and 100.
\<close>

theorem calculateMatchScore_invariant:
  "(let m = calculateMatchScore p r; b = breakdown m
    in totalScore m =
         Math_round ((b_expertise b + b_methods b + b_budget b
                      + b_availability b + b_experience b + b_domain b) * 10) / 10
       \<and> 0 \<le> b_expertise b \<and> b_expertise b \<le> 30
       \<and> 0 \<le> b_methods b \<and> b_methods b \<le> 25
       \<and> 0 \<le> b_budget b \<and> b_budget b \<le> 15
       \<and> 0 \<le> b_availability b \<and> b_availability b \<le> 10
       \<and> 0 \<le> b_experience b \<and> b_experience b \<le> 10
       \<and> 0 \<le> b_domain b \<and> b_domain b \<le> 10
       \<and> one_decimal (b_expertise b) \<and> one_decimal (b_methods b) \<and> one_decimal (b_budget b)
       \<and> one_decimal (b_availability b) \<and> one_decimal (b_experience b)
       \<and> one_decimal (b_domain b)
       \<and> 0 \<le> totalScore m \<and> totalScore m \<le> 100)"
proof -
  define b where "b = breakdown (calculateMatchScore p r)"
  have e: "0 \<le> b_expertise b \<and> b_expertise b \<le> 30 \<and> one_decimal (b_expertise b)"
    unfolding b_def breakdown_calculateMatchScore using calculateExpertiseScore_bounds by simp
  have m: "0 \<le> b_methods b \<and> b_methods b \<le> 25 \<and> one_decimal (b_methods b)"
    unfolding b_def breakdown_calculateMatchScore using calculateMethodsScore_bounds by simp
  have u: "0 \<le> b_budget b \<and> b_budget b \<le> 15 \<and> one_decimal (b_budget b)"
    unfolding b_def breakdown_calculateMatchScore using calculateBudgetScore_bounds by simp
  have a: "0 \<le> b_availability b \<and> b_availability b \<le> 10 \<and> one_decimal (b_availability b)"
    unfolding b_def breakdown_calculateMatchScore using calculateAvailabilityScore_bounds by simp
  have x: "0 \<le> b_experience b \<and> b_experience b \<le> 10 \<and> one_decimal (b_experience b)"
    unfolding b_def breakdown_calculateMatchScore using calculateExperienceScore_bounds by simp
  have d: "0 \<le> b_domain b \<and> b_domain b \<le> 10 \<and> one_decimal (b_domain b)"
    unfolding b_def breakdown_calculateMatchScore using calculateDomainScore_bounds by simp
  define s where "s = b_expertise b + b_methods b + b_budget b
                      + b_availability b + b_experience b + b_domain b"
  have t: "totalScore (calculateMatchScore p r) = Math_round (s * 10) / 10"
    unfolding s_def b_def by (rule totalScore_calculateMatchScore)
  have s0: "0 \<le> s * 10" and s1: "s * 10 \<le> of_int 1000"
    using e m u a x d unfolding s_def by simp_all
  have "0 \<le> Math_round (s * 10)" and "Math_round (s * 10) \<le> of_int 1000"
    using Math_round_nonneg[OF s0] Math_round_le[OF s1] by simp_all
  then have tb: "0 \<le> totalScore (calculateMatchScore p r) \<and> totalScore (calculateMatchScore p r) \<le> 100"
    unfolding t by simp
  show ?thesis
    using e m u a x d t tb unfolding Let_def b_def[symmetric] s_def by blast
qed

text \<open>The theorem at the example project, with its organization, and the example
  researcher.\<close>

theorem calculateMatchScore_invariant_witness:
  "0 \<le> totalScore (calculateMatchScore
            (example_project\<lparr>organization := Some example_organization\<rparr>) example_researcher)
   \<and> totalScore (calculateMatchScore
            (example_project\<lparr>organization := Some example_organization\<rparr>) example_researcher) \<le> 100
   \<and> b_budget (breakdown (calculateMatchScore
            (example_project\<lparr>organization := Some example_organization\<rparr>) example_researcher)) \<le> 15"
  using calculateMatchScore_invariant
          [of "example_project\<lparr>organization := Some example_organization\<rparr>" example_researcher]
  by (simp add: Let_def)

subsection \<open>The finders\<close>

text \<open>The options the controller passes: a limit from 1 to 100, an offset that is not
  negative, a minimum score from 0 to 100.\<close>

lemma valid_options_range:
  "1 \<le> validLimit l \<and> validLimit l \<le> 100 \<and> 0 \<le> validOffset k
   \<and> 0 \<le> validMinScore s \<and> validMinScore s \<le> 100"
  by (simp add: validLimit_def validOffset_def validMinScore_def)

lemma filteredMatches_mset:
  "mset (filteredMatches s C) = mset (filter (\<lambda>m. s \<le> matchScore m) C)"
  by (simp add: filteredMatches_def)

lemma filteredMatches_descending:
  "sorted_wrt (\<lambda>a b. matchScore a \<ge> matchScore b) (filteredMatches s C)"
proof -
  have "sorted (map (\<lambda>m. - matchScore m) (filteredMatches s C))"
    unfolding filteredMatches_def by (rule sorted_sort_key)
  then show ?thesis by (simp add: sorted_wrt_map)
qed

lemma filteredMatches_stable:
  "filter (\<lambda>m. matchScore m = k) (filteredMatches s C)
     = filter (\<lambda>m. matchScore m = k) (filter (\<lambda>m. s \<le> matchScore m) C)"
  using sort_key_stable[of "\<lambda>m. - matchScore m" "- k" "filter (\<lambda>m. s \<le> matchScore m) C"]
  by (simp add: filteredMatches_def)

lemma filteredMatches_length:
  "length (filteredMatches s C) = length (filter (\<lambda>m. s \<le> matchScore m) C)"
  by (simp add: filteredMatches_def)

text \<open>Whatever the candidates, \<open>paginate\<close> returns a page of them, and an empty
  page with a total of 0 when every candidate scores below the minimum.\<close>

lemma paginate_is_page: "is_page_of opts C (paginate opts C)"
  unfolding is_page_of_def Let_def
  using filteredMatches_mset[of "minScore opts" C] filteredMatches_descending[of "minScore opts" C]
        filteredMatches_stable[of _ "minScore opts" C]
  by (auto simp add: paginate_def Let_def filteredMatches_length
           intro!: exI[of _ "filteredMatches (minScore opts) C"])

lemma paginate_all_below:
  assumes "\<forall>m\<in>set C. matchScore m < minScore opts"
  shows "matches (paginate opts C) = [] \<and> total (pagination (paginate opts C)) = 0"
proof -
  have "filter (\<lambda>m. minScore opts \<le> matchScore m) C = []"
    using assms by (auto simp add: filter_empty_conv)
  then show ?thesis by (simp add: paginate_def filteredMatches_def Let_def)
qed

lemma paginate_page:
  "is_page_of opts C (paginate opts C)
   \<and> ((\<forall>m\<in>set C. matchScore m < minScore opts)
        \<longrightarrow> matches (paginate opts C) = [] \<and> total (pagination (paginate opts C)) = 0)"
  using paginate_is_page[of opts C] paginate_all_below[of C opts] by blast

text \<open>The contract leaves no freedom: a page of the candidates has the matches the
  code computes.\<close>

lemma is_page_of_matches:
  assumes "is_page_of opts C res"
  shows "matches res = take (limit opts) (drop (offset opts) (filteredMatches (minScore opts) C))"
proof -
  define kept where "kept = filter (\<lambda>m. minScore opts \<le> matchScore m) C"
  from assms obtain ranked where
    m: "mset ranked = mset kept" and
    s: "sorted_wrt (\<lambda>a b. matchScore a \<ge> matchScore b) ranked" and
    st: "\<And>k. filter (\<lambda>m. matchScore m = k) ranked = filter (\<lambda>m. matchScore m = k) kept" and
    w: "matches res = take (limit opts) (drop (offset opts) ranked)"
    unfolding is_page_of_def Let_def kept_def by blast
  have "sorted (map (\<lambda>m. - matchScore m) ranked)"
    using s by (simp add: sorted_wrt_map)
  moreover have "filter (\<lambda>x. - matchScore k = - matchScore x) ranked
                 = filter (\<lambda>x. - matchScore k = - matchScore x) kept" for k
    using st[of "matchScore k"] by (simp add: eq_commute)
  ultimately have "sort_key (\<lambda>m. - matchScore m) kept = ranked"
    using m by (intro properties_for_sort_key) simp_all
  then show ?thesis using w by (simp add: filteredMatches_def kept_def)
qed

text \<open>Five candidates scoring 60, 40, 80, 60 and 70, a minimum of 50, the window from 1
  of length 2: the ranking is 3, 5, 1, 4 (the two candidates at 60 in fetch order), the
  page is 5 and 1, four candidates are kept and more follow.\<close>

lemma paginate_example:
  "map candidate
     (filteredMatches 50 [scored 1 60, scored 2 40, scored 3 80, scored 4 60, scored 5 70])
     = [3, 5, 1, 4]"
  "map candidate
     (matches (paginate \<lparr>limit = 2, offset = 1, minScore = 50\<rparr>
                 [scored 1 60, scored 2 40, scored 3 80, scored 4 60, scored 5 70]))
     = [5, 1]"
  "pagination (paginate \<lparr>limit = 2, offset = 1, minScore = 50\<rparr>
                 [scored 1 60, scored 2 40, scored 3 80, scored 4 60, scored 5 70])
     = \<lparr>total = 4, p_limit = 2, p_offset = 1, hasMore = True\<rparr>"
  by (simp_all add: paginate_def filteredMatches_def scored_def Let_def)

subsection \<open>The example database\<close>

lemma example_score:
  "calculateMatchScore (example_project\<lparr>organization := Some example_organization\<rparr>) example_researcher
     = \<lparr>totalScore = 99 / 2,
        breakdown = \<lparr>b_expertise = 15, b_methods = 25 / 2, b_budget = 0,
                     b_availability = 10, b_experience = 7, b_domain = 5\<rparr>,
        strengths = [AvailableAndHasCapacity],
        concerns = [MissingSomeRequiredMethods, RateMayNotFitBudget]\<rparr>"
  by code_simp

lemma example_lookups:
  "Project_findByPk example_db 1 = Some example_project"
  "ResearcherProfile_findOne example_db 7 = Some example_researcher"
  "Project_findByPk_include example_db 1
     = Some (example_project\<lparr>organization := Some example_organization\<rparr>)"
  by (simp_all add: Project_findByPk_def ResearcherProfile_findOne_def Project_findByPk_include_def
        Organization_findByPk_def example_db_def example_project_def example_researcher_def
        example_organization_def)

subsection \<open>The ranking database\<close>

lemma ranking_lookups:
  "Project_findByPk ranking_db 1 = Some example_project"
  "ResearcherProfile_findOne ranking_db 7 = Some example_researcher"
  by (simp_all add: Project_findByPk_def ResearcherProfile_findOne_def ranking_db_def
        example_project_def example_researcher_def)

text \<open>The project's candidates in fetch order are the users 7, 8, 9 and 10, scoring 49.5,
  10, 62 and 49.5; user 11 is left out, the account being suspended.\<close>

lemma ranking_projectCandidates:
  "map (\<lambda>m. (rs_user_id (candidate m), matchScore m)) (projectCandidates ranking_db example_project)
     = [(Some 7, 99 / 2), (Some 8, 10), (Some 9, 62), (Some 10, 99 / 2)]"
  by code_simp

text \<open>The researcher's candidates in fetch order are the open projects 1, 3, 4 and 5,
  scoring 49.5, 62, 49.5 and 17.\<close>

lemma ranking_researcherCandidates:
  "map (\<lambda>m. (ps_project_id (candidate m), matchScore m))
     (researcherCandidates ranking_db example_researcher)
     = [(1, 99 / 2), (3, 62), (4, 99 / 2), (5, 17)]"
  by code_simp

lemma ranking_project_page:
  "map (\<lambda>m. (rs_user_id (candidate m), matchScore m))
     (take 2 (drop 0 (filteredMatches 40 (projectCandidates ranking_db example_project))))
     = [(Some 9, 62), (Some 7, 99 / 2)]"
  "length (filter (\<lambda>m. 40 \<le> matchScore m) (projectCandidates ranking_db example_project)) = 3"
  by code_simp+

lemma ranking_researcher_page:
  "map (\<lambda>m. (ps_project_id (candidate m), matchScore m))
     (take 2 (drop 1 (filteredMatches 40 (researcherCandidates ranking_db example_researcher))))
     = [(1, 99 / 2), (4, 99 / 2)]"
  "length (filter (\<lambda>m. 40 \<le> matchScore m) (researcherCandidates ranking_db example_researcher)) = 3"
  by code_simp+

lemma is_page_of_counts:
  assumes "is_page_of opts C res"
  shows "total (pagination res) = length (filter (\<lambda>m. minScore opts \<le> matchScore m) C)"
    and "hasMore (pagination res)
           = (offset opts + limit opts < length (filter (\<lambda>m. minScore opts \<le> matchScore m) C))"
  using assms unfolding is_page_of_def Let_def by blast+

subsection \<open>Ranking and pagination\<close>

text \<open>The researcher-side finder with fields of its options left out: each takes its
  default, 20, 0 or 50.\<close>

lemma findMatchesForResearcher_defaults:
  assumes "ResearcherProfile_findOne db researcherId = Some r"
  shows "\<exists>res. findMatchesForResearcher db researcherId raw = Inr res
           \<and> is_page_of
                \<lparr>limit = (case raw_limit raw of None \<Rightarrow> 20 | Some l \<Rightarrow> l),
                 offset = (case raw_offset raw of None \<Rightarrow> 0 | Some k \<Rightarrow> k),
                 minScore = (case raw_minScore raw of None \<Rightarrow> 50 | Some s \<Rightarrow> s)\<rparr>
                (researcherCandidates db r) res"
  using assms paginate_page[of "with_defaults raw" "researcherCandidates db r"]
  by (simp add: findMatchesForResearcher_def with_defaults_def)

text \<open>
  Claim C2. For every options value \<open>opts\<close> with its \<open>limit\<close>, \<open>offset\<close> and \<open>minScore\<close>:
  when the project exists, \<open>findMatchesForProject\<close> called with \<open>opts\<close> returns a page
  of its scored candidates for \<open>opts\<close>, and when the researcher profile exists,
  \<open>findMatchesForResearcher\<close> called with the same three values returns a page of its
  scored candidates for \<open>opts\<close>: the candidates scoring below \<open>minScore\<close> removed, the
  rest in descending order of \<open>matchScore\<close> with ties in fetch order, cut to the window
  \<open>[offset, offset + limit)\<close>; \<open>total\<close> is the number of candidates kept before the cut,
  and \<open>hasMore\<close> holds exactly when \<open>offset + limit\<close> is less than it. When every candidate
  scores below \<open>minScore\<close> the matches are empty and the total is 0. Here \<open>limit\<close> and
  \<open>offset\<close> are non-negative integers, as the controller passes them.
\<close>

theorem finders_filter_sort_slice:
  "(Project_findByPk db projectId = Some p \<longrightarrow>
      (\<exists>res. findMatchesForProject db projectId opts = Inr res
         \<and> is_page_of opts (projectCandidates db p) res
         \<and> ((\<forall>m\<in>set (projectCandidates db p). matchScore m < minScore opts)
              \<longrightarrow> matches res = [] \<and> total (pagination res) = 0)))
   \<and> (ResearcherProfile_findOne db researcherId = Some r \<longrightarrow>
      (\<exists>res. findMatchesForResearcher db researcherId
                \<lparr>raw_limit = Some (limit opts), raw_offset = Some (offset opts),
                 raw_minScore = Some (minScore opts)\<rparr> = Inr res
         \<and> is_page_of opts (researcherCandidates db r) res
         \<and> ((\<forall>m\<in>set (researcherCandidates db r). matchScore m < minScore opts)
              \<longrightarrow> matches res = [] \<and> total (pagination res) = 0)))"
proof (intro conjI impI)
  assume "Project_findByPk db projectId = Some p"
  then have "findMatchesForProject db projectId opts
               = Inr (paginate opts (projectCandidates db p))"
    by (simp add: findMatchesForProject_def)
  then show "\<exists>res. findMatchesForProject db projectId opts = Inr res
         \<and> is_page_of opts (projectCandidates db p) res
         \<and> ((\<forall>m\<in>set (projectCandidates db p). matchScore m < minScore opts)
              \<longrightarrow> matches res = [] \<and> total (pagination res) = 0)"
    using paginate_page[of opts "projectCandidates db p"] by blast
next
  assume "ResearcherProfile_findOne db researcherId = Some r"
  moreover have "with_defaults \<lparr>raw_limit = Some (limit opts), raw_offset = Some (offset opts),
                   raw_minScore = Some (minScore opts)\<rparr> = opts"
    by (simp add: with_defaults_def)
  ultimately have "findMatchesForResearcher db researcherId
                     \<lparr>raw_limit = Some (limit opts), raw_offset = Some (offset opts),
                      raw_minScore = Some (minScore opts)\<rparr>
               = Inr (paginate opts (researcherCandidates db r))"
    by (simp add: findMatchesForResearcher_def)
  then show "\<exists>res. findMatchesForResearcher db researcherId
                \<lparr>raw_limit = Some (limit opts), raw_offset = Some (offset opts),
                 raw_minScore = Some (minScore opts)\<rparr> = Inr res
         \<and> is_page_of opts (researcherCandidates db r) res
         \<and> ((\<forall>m\<in>set (researcherCandidates db r). matchScore m < minScore opts)
              \<longrightarrow> matches res = [] \<and> total (pagination res) = 0)"
    using paginate_page[of opts "researcherCandidates db r"] by blast
qed

text \<open>The theorem on the ranking database. For project 1 with a limit of 2, an offset of
  0 and a minimum of 40, user 8 is removed, user 9 comes first with 62, the users 7 and 10
  tie at 49.5 and keep their fetch order, so the page is 9 and 7, with three candidates
  kept and more to follow. For the researcher of user 7 with a limit of 2, an offset of 1
  and a minimum of 40, project 5 is removed, the ranking is 3, 1, 4, and the page is 1 and
  4, with three kept and none to follow.\<close>

theorem finders_filter_sort_slice_witness:
  "Project_findByPk ranking_db 1 = Some example_project
   \<and> ResearcherProfile_findOne ranking_db 7 = Some example_researcher
   \<and> (\<exists>res. findMatchesForProject ranking_db 1 \<lparr>limit = 2, offset = 0, minScore = 40\<rparr> = Inr res
         \<and> map (\<lambda>m. (rs_user_id (candidate m), matchScore m)) (matches res)
             = [(Some 9, 62), (Some 7, 99 / 2)]
         \<and> total (pagination res) = 3 \<and> hasMore (pagination res))
   \<and> (\<exists>res. findMatchesForResearcher ranking_db 7
                \<lparr>raw_limit = Some 2, raw_offset = Some 1, raw_minScore = Some 40\<rparr> = Inr res
         \<and> map (\<lambda>m. (ps_project_id (candidate m), matchScore m)) (matches res)
             = [(1, 99 / 2), (4, 99 / 2)]
         \<and> total (pagination res) = 3 \<and> \<not> hasMore (pagination res))"
proof -
  define po where "po = \<lparr>limit = 2, offset = 0, minScore = (40 :: rat)\<rparr>"
  define ro where "ro = \<lparr>limit = 2, offset = 1, minScore = (40 :: rat)\<rparr>"
  have sel: "limit po = 2" "offset po = 0" "minScore po = 40"
            "limit ro = 2" "offset ro = 1" "minScore ro = 40"
    by (simp_all add: po_def ro_def)
  from finders_filter_sort_slice[of ranking_db 1 example_project po 7 example_researcher]
       ranking_lookups(1)
  obtain pres where
    p1: "findMatchesForProject ranking_db 1 po = Inr pres" and
    p2: "is_page_of po (projectCandidates ranking_db example_project) pres"
    by blast
  from finders_filter_sort_slice[of ranking_db 1 example_project ro 7 example_researcher]
       ranking_lookups(2)
  obtain rres where
    r1: "findMatchesForResearcher ranking_db 7
           \<lparr>raw_limit = Some (limit ro), raw_offset = Some (offset ro),
            raw_minScore = Some (minScore ro)\<rparr> = Inr rres" and
    r2: "is_page_of ro (researcherCandidates ranking_db example_researcher) rres"
    by blast
  have pm: "map (\<lambda>m. (rs_user_id (candidate m), matchScore m)) (matches pres)
              = [(Some 9, 62), (Some 7, 99 / 2)]"
    using is_page_of_matches[OF p2] ranking_project_page(1) by (simp add: sel)
  have pt: "total (pagination pres) = 3" "hasMore (pagination pres)"
    using is_page_of_counts[OF p2] ranking_project_page(2) by (simp_all add: sel)
  have rm: "map (\<lambda>m. (ps_project_id (candidate m), matchScore m)) (matches rres)
              = [(1, 99 / 2), (4, 99 / 2)]"
    using is_page_of_matches[OF r2] ranking_researcher_page(1) by (simp add: sel)
  have rt: "total (pagination rres) = 3" "\<not> hasMore (pagination rres)"
    using is_page_of_counts[OF r2] ranking_researcher_page(2) by (simp_all add: sel)
  show ?thesis
    using ranking_lookups p1 pm pt r1 rm rt by (simp add: po_def ro_def)
qed

subsection \<open>Missing records\<close>

text \<open>
  Claim C9. When no project has the given id, \<open>findMatchesForProject\<close> fails with the
  error \<^verbatim>\<open>Project not found\<close>; when no researcher profile has the given user id,
  \<open>findMatchesForResearcher\<close> fails with the error \<^verbatim>\<open>Researcher profile not found\<close>;
  in both cases the outcome is the error and no result, so no match list is returned.
  These two errors are what the specification calls \<^verbatim>\<open>NotFoundError\<close>.
\<close>

theorem finders_not_found:
  "((\<forall>p\<in>set (projects db). project_id p \<noteq> projectId)
      \<longrightarrow> findMatchesForProject db projectId opts = Inl (Error ''Project not found'')
          \<and> (\<forall>res. findMatchesForProject db projectId opts \<noteq> Inr res))
   \<and> ((\<forall>r\<in>set (researcher_profiles db). user_id r \<noteq> Some researcherId)
      \<longrightarrow> findMatchesForResearcher db researcherId raw = Inl (Error ''Researcher profile not found'')
          \<and> (\<forall>res. findMatchesForResearcher db researcherId raw \<noteq> Inr res))"
proof -
  have a: "(\<forall>p\<in>set (projects db). project_id p \<noteq> projectId) \<Longrightarrow> Project_findByPk db projectId = None"
    by (auto simp add: Project_findByPk_def find_None_iff)
  have b: "(\<forall>r\<in>set (researcher_profiles db). user_id r \<noteq> Some researcherId)
             \<Longrightarrow> ResearcherProfile_findOne db researcherId = None"
    by (auto simp add: ResearcherProfile_findOne_def find_None_iff)
  show ?thesis using a b
    by (auto simp add: findMatchesForProject_def findMatchesForResearcher_def)
qed

text \<open>The theorem on the example database, for an id that no project and no profile
  has.\<close>

theorem finders_not_found_witness:
  "99 \<notin> project_id ` set (projects example_db)
   \<and> findMatchesForProject example_db 99 \<lparr>limit = 20, offset = 0, minScore = 0\<rparr>
       = Inl (Error ''Project not found'')
   \<and> Some 99 \<notin> user_id ` set (researcher_profiles example_db)
   \<and> findMatchesForResearcher example_db 99 \<lparr>raw_limit = None, raw_offset = None, raw_minScore = None\<rparr>
       = Inl (Error ''Researcher profile not found'')"
proof -
  have a: "99 \<notin> project_id ` set (projects example_db)"
    by (simp add: example_db_def example_project_def)
  have b: "Some 99 \<notin> user_id ` set (researcher_profiles example_db)"
    by (simp add: example_db_def example_researcher_def)
  have a': "\<forall>p\<in>set (projects example_db). project_id p \<noteq> 99"
    by (simp add: example_db_def example_project_def)
  have b': "\<forall>r\<in>set (researcher_profiles example_db). user_id r \<noteq> Some 99"
    by (simp add: example_db_def example_researcher_def)
  show ?thesis
    using finders_not_found[of example_db 99 "\<lparr>limit = 20, offset = 0, minScore = 0\<rparr>" 99
            "\<lparr>raw_limit = None, raw_offset = None, raw_minScore = None\<rparr>"] a b a' b'
    by blast
qed

subsection \<open>Explaining a match\<close>

text \<open>
  Claim C8. For an authenticated request that names a project and a researcher whose
  records exist, \<open>explainMatch\<close> answers with a body whose \<open>totalScore\<close> is the
  \<open>totalScore\<close> of \<open>calculateMatchScore\<close> on the same project (with its organization)
  and researcher; each of the six factors carries the sub-score of that same result, the
  maximum 30, 25, 15, 10, 10 or 10, and the percentage \<open>round(score / max \<times> 100)\<close>.
\<close>

theorem explainMatch_agrees:
  assumes "q_projectId req = Some projectId" and "q_researcherId req = Some researcherId"
    and "authenticated req"
    and "Project_findByPk_include db projectId = Some p"
    and "ResearcherProfile_findOne db researcherId = Some r"
  shows "\<exists>body. explainMatch db req = Success body
           \<and> e_totalScore body = totalScore (calculateMatchScore p r)
           \<and> score (d_expertise (e_breakdown body)) = b_expertise (breakdown (calculateMatchScore p r))
           \<and> score (d_methods (e_breakdown body)) = b_methods (breakdown (calculateMatchScore p r))
           \<and> score (d_budget (e_breakdown body)) = b_budget (breakdown (calculateMatchScore p r))
           \<and> score (d_availability (e_breakdown body)) = b_availability (breakdown (calculateMatchScore p r))
           \<and> score (d_experience (e_breakdown body)) = b_experience (breakdown (calculateMatchScore p r))
           \<and> score (d_domain (e_breakdown body)) = b_domain (breakdown (calculateMatchScore p r))
           \<and> f_max (d_expertise (e_breakdown body)) = 30
           \<and> f_max (d_methods (e_breakdown body)) = 25
           \<and> f_max (d_budget (e_breakdown body)) = 15
           \<and> f_max (d_availability (e_breakdown body)) = 10
           \<and> f_max (d_experience (e_breakdown body)) = 10
           \<and> f_max (d_domain (e_breakdown body)) = 10
           \<and> list_all (\<lambda>f. percentage f = Math_round (score f / f_max f * 100))
                [d_expertise (e_breakdown body), d_methods (e_breakdown body),
                 d_budget (e_breakdown body), d_availability (e_breakdown body),
                 d_experience (e_breakdown body), d_domain (e_breakdown body)]"
  using assms by (simp add: explainMatch_def Let_def)

text \<open>The theorem on the example database: the total is 49.5 and the percentages are
  50, 50, 0, 100, 70 and 50.\<close>

theorem explainMatch_agrees_witness:
  "\<exists>body. explainMatch example_db \<lparr>q_projectId = Some 1, q_researcherId = Some 7, authenticated = True\<rparr>
             = Success body
     \<and> e_totalScore body = 99 / 2
     \<and> e_totalScore body
         = totalScore (calculateMatchScore
             (example_project\<lparr>organization := Some example_organization\<rparr>) example_researcher)
     \<and> percentage (d_expertise (e_breakdown body)) = 50
     \<and> percentage (d_methods (e_breakdown body)) = 50
     \<and> percentage (d_budget (e_breakdown body)) = 0
     \<and> percentage (d_availability (e_breakdown body)) = 100
     \<and> percentage (d_experience (e_breakdown body)) = 70
     \<and> percentage (d_domain (e_breakdown body)) = 50"
proof -
  have r: "Math_round 50 = 50" "Math_round 0 = 0" "Math_round 100 = 100" "Math_round 70 = 70"
    using Math_round_of_int[of 50] Math_round_of_int[of 0] Math_round_of_int[of 100]
          Math_round_of_int[of 70] by simp_all
  define P where "P = example_project\<lparr>organization := Some example_organization\<rparr>"
  have "\<exists>body. explainMatch example_db
                  \<lparr>q_projectId = Some 1, q_researcherId = Some 7, authenticated = True\<rparr>
                = Success body
          \<and> e_totalScore body = totalScore (calculateMatchScore P example_researcher)
          \<and> score (d_expertise (e_breakdown body)) = b_expertise (breakdown (calculateMatchScore P example_researcher))
          \<and> score (d_methods (e_breakdown body)) = b_methods (breakdown (calculateMatchScore P example_researcher))
          \<and> score (d_budget (e_breakdown body)) = b_budget (breakdown (calculateMatchScore P example_researcher))
          \<and> score (d_availability (e_breakdown body)) = b_availability (breakdown (calculateMatchScore P example_researcher))
          \<and> score (d_experience (e_breakdown body)) = b_experience (breakdown (calculateMatchScore P example_researcher))
          \<and> score (d_domain (e_breakdown body)) = b_domain (breakdown (calculateMatchScore P example_researcher))
          \<and> f_max (d_expertise (e_breakdown body)) = 30
          \<and> f_max (d_methods (e_breakdown body)) = 25
          \<and> f_max (d_budget (e_breakdown body)) = 15
          \<and> f_max (d_availability (e_breakdown body)) = 10
          \<and> f_max (d_experience (e_breakdown body)) = 10
          \<and> f_max (d_domain (e_breakdown body)) = 10
          \<and> list_all (\<lambda>f. percentage f = Math_round (score f / f_max f * 100))
               [d_expertise (e_breakdown body), d_methods (e_breakdown body),
                d_budget (e_breakdown body), d_availability (e_breakdown body),
                d_experience (e_breakdown body), d_domain (e_breakdown body)]"
    unfolding P_def
    by (rule explainMatch_agrees[OF _ _ _ example_lookups(3) example_lookups(2)]) simp_all
  then obtain body where
    s: "explainMatch example_db
          \<lparr>q_projectId = Some 1, q_researcherId = Some 7, authenticated = True\<rparr> = Success body"
    and t: "e_totalScore body = totalScore (calculateMatchScore P example_researcher)"
    and sc: "score (d_expertise (e_breakdown body)) = b_expertise (breakdown (calculateMatchScore P example_researcher))"
        "score (d_methods (e_breakdown body)) = b_methods (breakdown (calculateMatchScore P example_researcher))"
        "score (d_budget (e_breakdown body)) = b_budget (breakdown (calculateMatchScore P example_researcher))"
        "score (d_availability (e_breakdown body)) = b_availability (breakdown (calculateMatchScore P example_researcher))"
        "score (d_experience (e_breakdown body)) = b_experience (breakdown (calculateMatchScore P example_researcher))"
        "score (d_domain (e_breakdown body)) = b_domain (breakdown (calculateMatchScore P example_researcher))"
    and fm: "f_max (d_expertise (e_breakdown body)) = 30"
        "f_max (d_methods (e_breakdown body)) = 25"
        "f_max (d_budget (e_breakdown body)) = 15"
        "f_max (d_availability (e_breakdown body)) = 10"
        "f_max (d_experience (e_breakdown body)) = 10"
        "f_max (d_domain (e_breakdown body)) = 10"
    and la: "list_all (\<lambda>f. percentage f = Math_round (score f / f_max f * 100))
               [d_expertise (e_breakdown body), d_methods (e_breakdown body),
                d_budget (e_breakdown body), d_availability (e_breakdown body),
                d_experience (e_breakdown body), d_domain (e_breakdown body)]"
    by blast
  have v: "calculateMatchScore P example_researcher
     = \<lparr>totalScore = 99 / 2,
        breakdown = \<lparr>b_expertise = 15, b_methods = 25 / 2, b_budget = 0,
                     b_availability = 10, b_experience = 7, b_domain = 5\<rparr>,
        strengths = [AvailableAndHasCapacity],
        concerns = [MissingSomeRequiredMethods, RateMayNotFitBudget]\<rparr>"
    unfolding P_def by (rule example_score)
  have pc: "percentage (d_expertise (e_breakdown body)) = 50"
       "percentage (d_methods (e_breakdown body)) = 50"
       "percentage (d_budget (e_breakdown body)) = 0"
       "percentage (d_availability (e_breakdown body)) = 100"
       "percentage (d_experience (e_breakdown body)) = 70"
       "percentage (d_domain (e_breakdown body)) = 50"
    using la by (simp_all add: sc fm v r)
  have "e_totalScore body = 99 / 2" by (simp add: t v)
  then show ?thesis using s t pc unfolding P_def by blast
qed

end
